theory Spec2Isabelle
  imports Complex_Main
begin

section \<open>Time\<close>

text \<open>
  A \<^verbatim>\<open>datetime\<close> is an instant, counted in microseconds (the resolution of Python's
  \<^verbatim>\<open>datetime\<close>) since 1970-01-01T00:00:00 UTC. Aware datetimes compare by instant and
  \<^verbatim>\<open>timedelta\<close> arithmetic is addition of microseconds. \<open>now\<close> below is always the value
  that \<^verbatim>\<open>timezone.now()\<close> returns at the call.
\<close>

type_synonym datetime = int

definition timedelta_minutes :: "int \<Rightarrow> int" where
  "timedelta_minutes m = m * 60 * 1000000"

definition timedelta_seconds :: "int \<Rightarrow> int" where
  "timedelta_seconds s = s * 1000000"

text \<open>
  The \<^verbatim>\<open>.year\<close> attribute of an instant, in the proleptic Gregorian calendar (UTC): the day
  number since the epoch is shifted to a 400-year era that starts on 1 March, the year of the era is
  read off the day of the era, and January and February belong to the following civil year.
\<close>

definition year_of :: "datetime \<Rightarrow> int" where
  "year_of t =
     (let days = t div 86400000000;
          z = days + 719468;
          era = z div 146097;
          doe = z - era * 146097;
          yoe = (doe - doe div 1460 + doe div 36524 - doe div 146096) div 365;
          doy = doe - (365 * yoe + yoe div 4 - yoe div 100);
          mp = (5 * doy + 2) div 153;
          m = (if mp < 10 then mp + 3 else mp - 9)
      in yoe + era * 400 + (if m \<le> 2 then 1 else 0))"

section \<open>String formatting\<close>

definition digit_char :: "nat \<Rightarrow> char" where
  "digit_char d = ''0123456789'' ! d"

text \<open>\<^verbatim>\<open>str(n)\<close> for a non-negative integer: its decimal digits, most significant first.\<close>

fun str_nat :: "nat \<Rightarrow> string" where
  "str_nat n = (if n < 10 then [digit_char n] else str_nat (n div 10) @ [digit_char (n mod 10)])"

declare str_nat.simps [simp del]

definition str_int :: "int \<Rightarrow> string" where
  "str_int i = (if i < 0 then CHR ''-'' # str_nat (nat (- i)) else str_nat (nat i))"

text \<open>The format specification \<^verbatim>\<open>{count:05d}\<close>: decimal, padded with zeros on the left up to
  a minimum width of five characters.\<close>

definition format_05d :: "nat \<Rightarrow> string" where
  "format_05d n = (let s = str_nat n in replicate (5 - length s) CHR ''0'' @ s)"

text \<open>
  The lookup \<^verbatim>\<open>request_id__startswith=prefix\<close> is run by the database as
  \<^verbatim>\<open>request_id LIKE 'prefix%'\<close> (the characters of the prefix are escaped, so that
  they stand for themselves). On SQLite, the default database of a Django project,
  \<^verbatim>\<open>LIKE\<close> ignores the case of ASCII letters, and the lookup is \<open>istartswith\<close>. When the
  database is set to compare case in \<^verbatim>\<open>LIKE\<close> (\<^verbatim>\<open>PRAGMA case_sensitive_like\<close>), the
  lookup is \<open>startswith\<close>, the prefix test on the characters as they are.
\<close>

definition startswith :: "string \<Rightarrow> string \<Rightarrow> bool" where
  "startswith p s = (take (length p) s = p)"

definition ascii_lower :: "char \<Rightarrow> char" where
  "ascii_lower c =
     (case map_of (zip ''ABCDEFGHIJKLMNOPQRSTUVWXYZ'' ''abcdefghijklmnopqrstuvwxyz'') c of
        None \<Rightarrow> c
      | Some l \<Rightarrow> l)"

definition istartswith :: "string \<Rightarrow> string \<Rightarrow> bool" where
  "istartswith p s = startswith (map ascii_lower p) (map ascii_lower s)"

text \<open>Reading a string of decimal digits back as a number (\<^verbatim>\<open>int(s)\<close>), used to speak about
  the numeric suffix of an identifier.\<close>

definition digit_val :: "char \<Rightarrow> nat" where
  "digit_val c = of_char c - 48"

definition nat_of_str :: "string \<Rightarrow> nat" where
  "nat_of_str s = foldl (\<lambda>a c. 10 * a + digit_val c) 0 s"

section \<open>Errors\<close>

text \<open>
  The database raises \<^verbatim>\<open>IntegrityError\<close> when a constraint is violated; the violated
  constraint is kept with it. A violation of \<open>UNIQUE\<close> is what the specification calls a
  UniquenessError. Validators raise \<^verbatim>\<open>ValidationError\<close>, and deleting an unsaved instance
  raises \<^verbatim>\<open>ValueError\<close>.
\<close>

datatype constraint = UNIQUE | NOT_NULL | FOREIGN_KEY

datatype error = IntegrityError constraint | ValidationError | ValueError

section \<open>Rows\<close>

text \<open>Users are referred to by primary key. A row of a model other than \<open>ServiceRequest\<close> carries its primary key and its
  foreign keys as numbers, next to the fields that the model declares.\<close>

type_synonym user_pk = nat

record pin_preference =
  pp_pk :: nat
  pp_user :: user_pk
  preferred_language :: string
  preferred_volunteer_gender :: string

text \<open>
  A \<^verbatim>\<open>ServiceRequest\<close> instance. \<open>pk\<close> is \<open>None\<close> until the instance has been inserted, and
  so is \<open>date_created\<close> (\<^verbatim>\<open>auto_now_add\<close>); \<open>request_id\<close> is the empty string until
  \<^verbatim>\<open>save\<close> generates it.
\<close>

record service_request =
  pk :: "nat option"
  request_id :: string
  pin :: user_pk
  service_type :: string
  appointment_date :: datetime
  pickup_location :: string
  service_location :: string
  description :: string
  status :: string
  date_created :: "datetime option"
  views :: nat
  shortlists :: nat

definition STATUS_PENDING :: string where
  "STATUS_PENDING = ''PENDING''"

record request_view =
  rv_pk :: nat
  rv_request :: nat
  viewer :: user_pk
  viewed_at :: datetime

record shortlist =
  sl_pk :: nat
  sl_request :: nat
  csr :: user_pk
  sl_created_at :: datetime

record match =
  m_pk :: nat
  m_request :: nat
  m_cv :: user_pk
  offered_at :: datetime
  accepted :: "bool option"
  accepted_at :: "datetime option"

record message =
  msg_pk :: nat
  msg_request :: nat
  sender :: user_pk
  text_body :: string
  sent_at :: datetime

record financial_claim =
  fc_pk :: nat
  fc_request :: nat
  fc_cv :: user_pk
  approved_by_pin :: bool
  approved_by_csr :: bool
  submitted_at :: datetime

text \<open>A \<^verbatim>\<open>Decimal\<close> as Python holds it: a sign, the digits of the coefficient and an
  exponent of ten (\<^verbatim>\<open>Decimal.as_tuple()\<close>). Only finite decimals are modelled.\<close>

record decimal =
  dec_sign :: bool
  dec_digits :: "nat list"
  dec_exponent :: int

record claim_item =
  ci_pk :: nat
  ci_claim :: nat
  category :: string
  date_of_expense :: int
  total_amount :: decimal
  payment_method :: string
  ci_description :: string

record receipt =
  rc_pk :: nat
  rc_item :: nat
  rc_image :: string
  uploaded_at :: datetime

record dispute =
  dp_pk :: nat
  dp_request :: nat
  dp_pin :: user_pk
  incorrect_amount :: bool
  incorrect_item :: bool
  incorrect_receipt :: bool
  dp_description :: string
  dp_created_at :: datetime

record otp_token =
  otp_user :: user_pk
  code :: string
  created_at :: datetime
  is_used :: bool

section \<open>The store\<close>

text \<open>
  One table per model, each a list of rows in insertion order, and the counters from which
  the database hands out the primary keys of the tables that are inserted into here. Of the
  table of users only the primary keys are kept. The database is SQLite, as Django sets it up:
  the declared widths of the columns (\<^verbatim>\<open>max_length\<close>) are not enforced when a row is
  written, a unique column is compared exactly, and a foreign key is checked when the statement
  commits. The store records how \<^verbatim>\<open>LIKE\<close> compares: \<open>like_ignores_case\<close> is true by
  default, and false when the database has been set to compare case in \<^verbatim>\<open>LIKE\<close>.
\<close>

record db =
  like_ignores_case :: bool
  users :: "user_pk list"
  pin_preferences :: "pin_preference list"
  service_requests :: "service_request list"
  request_views :: "request_view list"
  shortlist_rows :: "shortlist list"
  matches :: "match list"
  messages :: "message list"
  financial_claims :: "financial_claim list"
  claim_items :: "claim_item list"
  receipts :: "receipt list"
  disputes :: "dispute list"
  next_request_pk :: nat
  next_pin_preference_pk :: nat
  next_match_pk :: nat

definition empty_db :: "bool \<Rightarrow> db" where
  "empty_db ci = \<lparr>like_ignores_case = ci, users = [], pin_preferences = [], service_requests = [], request_views = [],
     shortlist_rows = [], matches = [], messages = [], financial_claims = [], claim_items = [],
     receipts = [], disputes = [], next_request_pk = 1, next_pin_preference_pk = 1,
     next_match_pk = 1\<rparr>"

definition lookup_startswith :: "db \<Rightarrow> string \<Rightarrow> string \<Rightarrow> bool" where
  "lookup_startswith db p s = (if like_ignores_case db then istartswith p s else startswith p s)"

section \<open>OTPToken\<close>

text \<open>
  \<^verbatim>\<open>
  def is_expired(self):
      return timezone.now() > self.created_at + timezone.timedelta(minutes=10)
  \<close>
  The token is a stored row, so \<open>created_at\<close> (\<^verbatim>\<open>auto_now_add\<close>) is set.
\<close>

definition is_expired :: "datetime \<Rightarrow> otp_token \<Rightarrow> bool" where
  "is_expired now self = (now > created_at self + timedelta_minutes 10)"

section \<open>ServiceRequest.save\<close>

text \<open>
  The method of the model:
  \<^verbatim>\<open>
  def save(self, *args, **kwargs):
      if not self.request_id:
          now = timezone.now()
          prefix = f"RQ-{now.year}-"
          count = ServiceRequest.objects.filter(request_id__startswith=prefix).count() + 1
          self.request_id = f"{prefix}{count:05d}"
      super().save(*args, **kwargs)
  \<close>
  \<open>Model_save\<close> is \<^verbatim>\<open>super().save\<close>, that is
  \<^verbatim>\<open>Model.save\<close> for a \<^verbatim>\<open>ServiceRequest\<close>. An instance without a primary key is inserted.
  An instance with a primary key is written with UPDATE; when no row has that key, it is inserted
  under that key instead. The insertion sets \<open>date_created\<close> on the instance (\<^verbatim>\<open>auto_now_add\<close>)
  before the row is written. The column \<open>request_id\<close> is \<^verbatim>\<open>unique=True\<close>, and \<open>pin\<close> is
  a foreign key to the users: it is checked when the statement commits, after the unique
  column, and an owner that is not a stored user is refused. The result is
  the error raised (if any), the instance after the call and the store after the call. One clock
  reading \<open>now\<close> stands for the two that a call makes (the year of the prefix, and
  \<open>date_created\<close> a moment later).
\<close>

definition insert_request ::
    "datetime \<Rightarrow> db \<Rightarrow> service_request \<Rightarrow> nat \<Rightarrow> error option \<times> service_request \<times> db" where
  "insert_request now db self p =
     (let self1 = self\<lparr>date_created := Some now\<rparr> in
      if \<exists>x \<in> set (service_requests db). request_id x = request_id self1
      then (Some (IntegrityError UNIQUE), self1, db)
      else if pin self1 \<notin> set (users db)
      then (Some (IntegrityError FOREIGN_KEY), self1, db)
      else (let row = self1\<lparr>pk := Some p\<rparr>
            in (None, row,
                db\<lparr>service_requests := service_requests db @ [row],
                   next_request_pk := max (next_request_pk db) (Suc p)\<rparr>)))"

definition update_request ::
    "db \<Rightarrow> service_request \<Rightarrow> nat \<Rightarrow> error option \<times> service_request \<times> db" where
  "update_request db self p =
     (if date_created self = None then (Some (IntegrityError NOT_NULL), self, db)
      else if \<exists>x \<in> set (service_requests db). pk x \<noteq> Some p \<and> request_id x = request_id self
      then (Some (IntegrityError UNIQUE), self, db)
      else if pin self \<notin> set (users db)
      then (Some (IntegrityError FOREIGN_KEY), self, db)
      else (None, self,
            db\<lparr>service_requests :=
                 map (\<lambda>x. if pk x = Some p then self else x) (service_requests db)\<rparr>))"

definition Model_save ::
    "datetime \<Rightarrow> db \<Rightarrow> service_request \<Rightarrow> error option \<times> service_request \<times> db" where
  "Model_save now db self =
     (case pk self of
        None \<Rightarrow> insert_request now db self (next_request_pk db)
      | Some p \<Rightarrow>
          if \<exists>x \<in> set (service_requests db). pk x = Some p
          then update_request db self p
          else insert_request now db self p)"

definition save ::
    "datetime \<Rightarrow> db \<Rightarrow> service_request \<Rightarrow> error option \<times> service_request \<times> db" where
  "save now db self =
     (let self1 =
        (if request_id self = [] then
           (let prefix = ''RQ-'' @ str_int (year_of now) @ ''-'';
                count = length (filter (\<lambda>x. lookup_startswith db prefix (request_id x))
                                  (service_requests db)) + 1
            in self\<lparr>request_id := prefix @ format_05d count\<rparr>)
         else self)
      in Model_save now db self1)"

section \<open>ServiceRequest.objects.create and ServiceRequest.duplicate\<close>

text \<open>
  \<^verbatim>\<open>
  def duplicate(self, new_appointment_dt):
      copy = ServiceRequest.objects.create(
          pin=self.pin,
          service_type=self.service_type,
          appointment_date=new_appointment_dt,
          pickup_location=self.pickup_location,
          service_location=self.service_location,
          description=self.description,
      )
      return copy
  \<close>
  \<^verbatim>\<open>ServiceRequest.objects.create(**kwargs)\<close> builds the instance from the keyword arguments
  and the defaults of the other fields (\<open>status\<close> PENDING, both counters 0, empty \<open>request_id\<close>),
  saves it and returns it; an error raised by \<open>save\<close> reaches the caller, who then has no
  instance.
\<close>

definition new_request ::
    "user_pk \<Rightarrow> string \<Rightarrow> datetime \<Rightarrow> string \<Rightarrow> string \<Rightarrow> string \<Rightarrow> service_request" where
  "new_request p st ad pl sl d =
     \<lparr>pk = None, request_id = [], pin = p, service_type = st, appointment_date = ad,
      pickup_location = pl, service_location = sl, description = d, status = STATUS_PENDING,
      date_created = None, views = 0, shortlists = 0\<rparr>"

definition objects_create ::
    "datetime \<Rightarrow> db \<Rightarrow> user_pk \<Rightarrow> string \<Rightarrow> datetime \<Rightarrow> string \<Rightarrow> string \<Rightarrow> string
       \<Rightarrow> (error + service_request) \<times> db" where
  "objects_create now db p st ad pl sl d =
     (case save now db (new_request p st ad pl sl d) of
        (None, obj, db') \<Rightarrow> (Inr obj, db')
      | (Some e, obj, db') \<Rightarrow> (Inl e, db'))"

definition duplicate ::
    "datetime \<Rightarrow> db \<Rightarrow> service_request \<Rightarrow> datetime \<Rightarrow> (error + service_request) \<times> db" where
  "duplicate now db self new_appointment_dt =
     objects_create now db (pin self) (service_type self) new_appointment_dt
       (pickup_location self) (service_location self) (description self)"

text \<open>A run of creations, one after the other, each with its own clock reading and keyword
  arguments; the results are kept in order.\<close>

record create_args =
  ca_now :: datetime
  ca_pin :: user_pk
  ca_service_type :: string
  ca_appointment_date :: datetime
  ca_pickup_location :: string
  ca_service_location :: string
  ca_description :: string

definition create_with :: "db \<Rightarrow> create_args \<Rightarrow> (error + service_request) \<times> db" where
  "create_with db a =
     objects_create (ca_now a) db (ca_pin a) (ca_service_type a) (ca_appointment_date a)
       (ca_pickup_location a) (ca_service_location a) (ca_description a)"

fun create_seq :: "db \<Rightarrow> create_args list \<Rightarrow> (error + service_request) list \<times> db" where
  "create_seq db [] = ([], db)"
| "create_seq db (a # as) =
     (case create_with db a of
        (r, db1) \<Rightarrow> (case create_seq db1 as of (rs, db2) \<Rightarrow> (r # rs, db2)))"

text \<open>
  The prefix of a year, the identifier that \<open>save\<close> generates at time \<open>now\<close> for an instance
  without one, and the stored identifiers that the lookup finds for the prefix of a year, in
  table order.
\<close>

definition year_prefix :: "int \<Rightarrow> string" where
  "year_prefix y = ''RQ-'' @ str_int y @ ''-''"

definition generated_id :: "datetime \<Rightarrow> db \<Rightarrow> string" where
  "generated_id now db =
     year_prefix (year_of now) @
     format_05d (length (filter (\<lambda>x. lookup_startswith db (year_prefix (year_of now))
                                        (request_id x))
                           (service_requests db)) + 1)"

definition year_ids :: "int \<Rightarrow> db \<Rightarrow> string list" where
  "year_ids y db =
     map request_id
       (filter (\<lambda>x. lookup_startswith db (year_prefix y) (request_id x))
          (service_requests db))"

text \<open>The identifier of a created request, the identifiers of the creations of a run that
  succeeded, and the number that the tail of an identifier after the prefix
  \<^verbatim>\<open>RQ-<year>-\<close> denotes.\<close>

definition created_id :: "error + service_request \<Rightarrow> string option" where
  "created_id r = (case r of Inl e \<Rightarrow> None | Inr c \<Rightarrow> Some (request_id c))"

definition suffix_number :: "int \<Rightarrow> string \<Rightarrow> nat" where
  "suffix_number y rid = nat_of_str (drop (length (year_prefix y)) rid)"

definition created_ids :: "(error + service_request) list \<Rightarrow> string list" where
  "created_ids rs = concat (map (\<lambda>r. case created_id r of None \<Rightarrow> [] | Some i \<Rightarrow> [i]) rs)"

section \<open>Related rows and cascading deletion\<close>

text \<open>The reverse relations of a request with primary key \<open>p\<close> (\<^verbatim>\<open>related_name\<close>
  \<^verbatim>\<open>view_logs\<close>, \<^verbatim>\<open>shortlist_logs\<close>, \<^verbatim>\<open>match\<close>, \<^verbatim>\<open>messages\<close>, \<^verbatim>\<open>claims\<close>,
  \<^verbatim>\<open>disputes\<close>).\<close>

definition view_logs :: "db \<Rightarrow> nat \<Rightarrow> request_view list" where
  "view_logs db p = filter (\<lambda>v. rv_request v = p) (request_views db)"

definition shortlist_logs :: "db \<Rightarrow> nat \<Rightarrow> shortlist list" where
  "shortlist_logs db p = filter (\<lambda>s. sl_request s = p) (shortlist_rows db)"

definition match_of :: "db \<Rightarrow> nat \<Rightarrow> match list" where
  "match_of db p = filter (\<lambda>m. m_request m = p) (matches db)"

definition messages_of :: "db \<Rightarrow> nat \<Rightarrow> message list" where
  "messages_of db p = filter (\<lambda>m. msg_request m = p) (messages db)"

definition claims :: "db \<Rightarrow> nat \<Rightarrow> financial_claim list" where
  "claims db p = filter (\<lambda>c. fc_request c = p) (financial_claims db)"

definition disputes_of :: "db \<Rightarrow> nat \<Rightarrow> dispute list" where
  "disputes_of db p = filter (\<lambda>d. dp_request d = p) (disputes db)"

text \<open>
  \<^verbatim>\<open>Model.delete\<close> for a \<^verbatim>\<open>ServiceRequest\<close>. An instance without a primary key cannot be
  deleted (\<^verbatim>\<open>ValueError\<close>). Otherwise every relation declared \<^verbatim>\<open>on_delete=models.CASCADE\<close>
  is followed from the request: the claims of the request are collected, then the items of the
  collected claims; collected rows are deleted by primary key, and the rows of the models that
  nothing refers to (views, shortlists, match, messages, disputes, receipts) are deleted by the
  foreign key that points to a collected row. The instance loses its primary key.
\<close>

definition delete :: "db \<Rightarrow> service_request \<Rightarrow> error option \<times> service_request \<times> db" where
  "delete db self =
     (case pk self of
        None \<Rightarrow> (Some ValueError, self, db)
      | Some p \<Rightarrow>
          (let claim_pks = map fc_pk (filter (\<lambda>c. fc_request c = p) (financial_claims db));
               item_pks = map ci_pk (filter (\<lambda>i. ci_claim i \<in> set claim_pks) (claim_items db))
           in (None, self\<lparr>pk := None\<rparr>,
               db\<lparr>request_views := filter (\<lambda>v. rv_request v \<noteq> p) (request_views db),
                  shortlist_rows := filter (\<lambda>s. sl_request s \<noteq> p) (shortlist_rows db),
                  matches := filter (\<lambda>m. m_request m \<noteq> p) (matches db),
                  messages := filter (\<lambda>m. msg_request m \<noteq> p) (messages db),
                  disputes := filter (\<lambda>d. dp_request d \<noteq> p) (disputes db),
                  receipts := filter (\<lambda>r. rc_item r \<notin> set item_pks) (receipts db),
                  claim_items := filter (\<lambda>i. ci_pk i \<notin> set item_pks) (claim_items db),
                  financial_claims :=
                    filter (\<lambda>c. fc_pk c \<notin> set claim_pks) (financial_claims db),
                  service_requests :=
                    filter (\<lambda>x. pk x \<noteq> Some p) (service_requests db)\<rparr>)))"

text \<open>An item belongs to request \<open>p\<close> when its claim is a stored claim of \<open>p\<close>; a receipt
  belongs to \<open>p\<close> when its item is a stored item that belongs to \<open>p\<close>.\<close>

definition item_of_request :: "db \<Rightarrow> nat \<Rightarrow> claim_item \<Rightarrow> bool" where
  "item_of_request db p i =
     (\<exists>c \<in> set (financial_claims db). fc_pk c = ci_claim i \<and> fc_request c = p)"

definition receipt_of_request :: "db \<Rightarrow> nat \<Rightarrow> receipt \<Rightarrow> bool" where
  "receipt_of_request db p r =
     (\<exists>i \<in> set (claim_items db). ci_pk i = rc_item r \<and> item_of_request db p i)"

text \<open>
  The constraints that the database keeps on stored rows: primary keys are unique within a
  table, every stored request has a primary key below the counter of its table, and the foreign
  keys to a request, a claim or an item point to stored rows.
\<close>

definition primary_keys_ok :: "db \<Rightarrow> bool" where
  "primary_keys_ok db =
     (distinct (map pp_pk (pin_preferences db)) \<and>
      distinct (map pk (service_requests db)) \<and>
      distinct (map rv_pk (request_views db)) \<and>
      distinct (map sl_pk (shortlist_rows db)) \<and>
      distinct (map m_pk (matches db)) \<and>
      distinct (map msg_pk (messages db)) \<and>
      distinct (map fc_pk (financial_claims db)) \<and>
      distinct (map ci_pk (claim_items db)) \<and>
      distinct (map rc_pk (receipts db)) \<and>
      distinct (map dp_pk (disputes db)))"

definition sequence_ok :: "db \<Rightarrow> bool" where
  "sequence_ok db =
     list_all (\<lambda>x. case pk x of None \<Rightarrow> False | Some p \<Rightarrow> p < next_request_pk db)
       (service_requests db)"

definition request_exists :: "db \<Rightarrow> nat \<Rightarrow> bool" where
  "request_exists db p = list_ex (\<lambda>x. pk x = Some p) (service_requests db)"

definition foreign_keys_ok :: "db \<Rightarrow> bool" where
  "foreign_keys_ok db =
     (list_all (\<lambda>v. request_exists db (rv_request v)) (request_views db) \<and>
      list_all (\<lambda>s. request_exists db (sl_request s)) (shortlist_rows db) \<and>
      list_all (\<lambda>m. request_exists db (m_request m)) (matches db) \<and>
      list_all (\<lambda>m. request_exists db (msg_request m)) (messages db) \<and>
      list_all (\<lambda>c. request_exists db (fc_request c)) (financial_claims db) \<and>
      list_all (\<lambda>d. request_exists db (dp_request d)) (disputes db) \<and>
      list_all (\<lambda>i. list_ex (\<lambda>c. fc_pk c = ci_claim i) (financial_claims db)) (claim_items db) \<and>
      list_all (\<lambda>r. list_ex (\<lambda>i. ci_pk i = rc_item r) (claim_items db)) (receipts db))"

definition wf_db :: "db \<Rightarrow> bool" where
  "wf_db db = (primary_keys_ok db \<and> sequence_ok db \<and> foreign_keys_ok db)"

section \<open>One-to-one relations\<close>

text \<open>
  \<^verbatim>\<open>PINPreference.user\<close> and \<^verbatim>\<open>Match.request\<close> are \<^verbatim>\<open>OneToOneField\<close>s: foreign keys
  whose column is unique. \<^verbatim>\<open>objects.create\<close> inserts a row with the given field values; the
  insertion is refused when a stored row already holds the same value in the unique column, and
  the table is then left as it was. The unique column alone decides the properties of these two
  models below, and their foreign keys are not checked here.
\<close>

definition PINPreference_create ::
    "db \<Rightarrow> user_pk \<Rightarrow> string \<Rightarrow> string \<Rightarrow> (error + pin_preference) \<times> db" where
  "PINPreference_create db u lang gender =
     (if \<exists>x \<in> set (pin_preferences db). pp_user x = u
      then (Inl (IntegrityError UNIQUE), db)
      else (let row = \<lparr>pp_pk = next_pin_preference_pk db, pp_user = u,
                        preferred_language = lang, preferred_volunteer_gender = gender\<rparr>
            in (Inr row,
                db\<lparr>pin_preferences := pin_preferences db @ [row],
                   next_pin_preference_pk := Suc (next_pin_preference_pk db)\<rparr>)))"

text \<open>\<open>off\<close> is the value of \<open>offered_at\<close>: the one given, or \<^verbatim>\<open>timezone.now()\<close> by
  default.\<close>

definition Match_create ::
    "db \<Rightarrow> nat \<Rightarrow> user_pk \<Rightarrow> datetime \<Rightarrow> bool option \<Rightarrow> datetime option
       \<Rightarrow> (error + match) \<times> db" where
  "Match_create db req v off acc acc_at =
     (if \<exists>x \<in> set (matches db). m_request x = req
      then (Inl (IntegrityError UNIQUE), db)
      else (let row = \<lparr>m_pk = next_match_pk db, m_request = req, m_cv = v, offered_at = off,
                        accepted = acc, accepted_at = acc_at\<rparr>
            in (Inr row,
                db\<lparr>matches := matches db @ [row], next_match_pk := Suc (next_match_pk db)\<rparr>)))"

section \<open>Validation of ClaimItem.total_amount\<close>

text \<open>
  The number that a \<^verbatim>\<open>Decimal\<close> denotes, and the validators that field validation runs on
  \<^verbatim>\<open>total_amount = DecimalField(max_digits=10, decimal_places=2, validators=[MinValueValidator(0)])\<close>:
  the declared \<^verbatim>\<open>MinValueValidator\<close>, which raises when the value is below its limit, and the
  validator of the declared precision, which counts the digits, the decimal places and the digits
  before the point of the decimal as written. Validation fails when a validator raises.
\<close>

definition dec_coefficient :: "decimal \<Rightarrow> nat" where
  "dec_coefficient v = foldl (\<lambda>a d. 10 * a + d) 0 (dec_digits v)"

definition dec_value :: "decimal \<Rightarrow> rat" where
  "dec_value v =
     (if dec_sign v then - 1 else 1) * of_nat (dec_coefficient v) *
     (if 0 \<le> dec_exponent v then 10 ^ nat (dec_exponent v)
      else 1 / 10 ^ nat (- dec_exponent v))"

definition MinValueValidator :: "int \<Rightarrow> decimal \<Rightarrow> error option" where
  "MinValueValidator limit_value v =
     (if dec_value v < of_int limit_value then Some ValidationError else None)"

definition DecimalValidator :: "nat \<Rightarrow> nat \<Rightarrow> decimal \<Rightarrow> error option" where
  "DecimalValidator max_digits decimal_places v =
     (let digit_tuple = dec_digits v;
          exponent = dec_exponent v;
          digits =
            (if 0 \<le> exponent
             then (if digit_tuple \<noteq> [0] then length digit_tuple + nat exponent
                   else length digit_tuple)
             else (if nat (- exponent) > length digit_tuple then nat (- exponent)
                   else length digit_tuple));
          decimals = (if 0 \<le> exponent then 0 else nat (- exponent));
          whole_digits = digits - decimals
      in if digits > max_digits then Some ValidationError
         else if decimals > decimal_places then Some ValidationError
         else if whole_digits > max_digits - decimal_places then Some ValidationError
         else None)"

text \<open>\<^verbatim>\<open>run_validators\<close> calls every validator of the field, collects the errors raised
  and raises \<^verbatim>\<open>ValidationError\<close> when there is one.\<close>

definition run_validators ::
    "(decimal \<Rightarrow> error option) list \<Rightarrow> decimal \<Rightarrow> error + decimal" where
  "run_validators validators v =
     (let errors = List.map_filter (\<lambda>f. f v) validators
      in if errors = [] then Inr v else Inl ValidationError)"

definition clean_total_amount :: "decimal \<Rightarrow> error + decimal" where
  "clean_total_amount v = run_validators [MinValueValidator 0, DecimalValidator 10 2] v"

section \<open>Sample values\<close>

text \<open>Two instants of 2025 (1 January and 1 July, midnight UTC), a user, the keyword arguments
  of a request of hers, the row that such a creation stores, and the stores (for either
  setting of \<open>like_ignores_case\<close>) that hold her as the only user and given request rows.\<close>

definition t_jan :: datetime where
  "t_jan = 1735689600000000"

definition t_jul :: datetime where
  "t_jul = 1751328000000000"

definition alice :: user_pk where
  "alice = 1"

definition alice_args :: "datetime \<Rightarrow> create_args" where
  "alice_args now =
     \<lparr>ca_now = now, ca_pin = alice, ca_service_type = ''ESCORT'', ca_appointment_date = t_jul,
      ca_pickup_location = ''Home'', ca_service_location = ''Clinic'', ca_description = []\<rparr>"

definition rq :: "nat \<Rightarrow> string \<Rightarrow> datetime \<Rightarrow> service_request" where
  "rq k rid t =
     \<lparr>pk = Some k, request_id = rid, pin = alice, service_type = ''ESCORT'',
      appointment_date = t_jul, pickup_location = ''Home'', service_location = ''Clinic'',
      description = [], status = STATUS_PENDING, date_created = Some t, views = 0,
      shortlists = 0\<rparr>"

definition db_of :: "bool \<Rightarrow> service_request list \<Rightarrow> nat \<Rightarrow> db" where
  "db_of ci rows n =
     (empty_db ci)\<lparr>users := [alice], service_requests := rows, next_request_pk := n\<rparr>"

definition dec_minus_0_01 :: decimal where
  "dec_minus_0_01 = \<lparr>dec_sign = True, dec_digits = [1], dec_exponent = - 2\<rparr>"

definition dec_0_00 :: decimal where
  "dec_0_00 = \<lparr>dec_sign = False, dec_digits = [0], dec_exponent = - 2\<rparr>"

definition dec_0_001 :: decimal where
  "dec_0_001 = \<lparr>dec_sign = False, dec_digits = [1], dec_exponent = - 3\<rparr>"

definition dec_12_50 :: decimal where
  "dec_12_50 = \<lparr>dec_sign = False, dec_digits = [1, 2, 5, 0], dec_exponent = - 2\<rparr>"

definition t_2026 :: datetime where
  "t_2026 = 1767225600000000"

text \<open>A store with two requests. The first one, \<open>sample_request\<close>, has been viewed twice and
  shortlisted once, has a match, a message, a claim with an item and a receipt, and a dispute;
  the second one has a view, a match and a claim with an item and a receipt.
  \<open>sample_db_after_delete\<close> is the same store without the first request and without the rows
  that belong to it.\<close>

definition sample_request :: service_request where
  "sample_request = (rq 1 ''RQ-2025-00001'' t_jan)\<lparr>views := 2, shortlists := 1\<rparr>"

definition sample_db :: db where
  "sample_db =
     \<lparr>like_ignores_case = True, users = [alice, 5, 6],
      pin_preferences =
        [\<lparr>pp_pk = 1, pp_user = alice, preferred_language = ''en'',
          preferred_volunteer_gender = []\<rparr>],
      service_requests = [sample_request, rq 2 ''RQ-2025-00002'' t_jan],
      request_views =
        [\<lparr>rv_pk = 1, rv_request = 1, viewer = 5, viewed_at = t_jan\<rparr>,
         \<lparr>rv_pk = 2, rv_request = 2, viewer = 5, viewed_at = t_jan\<rparr>,
         \<lparr>rv_pk = 3, rv_request = 1, viewer = 6, viewed_at = t_jan\<rparr>],
      shortlist_rows = [\<lparr>sl_pk = 1, sl_request = 1, csr = 6, sl_created_at = t_jan\<rparr>],
      matches =
        [\<lparr>m_pk = 1, m_request = 1, m_cv = 5, offered_at = t_jan, accepted = None,
          accepted_at = None\<rparr>,
         \<lparr>m_pk = 2, m_request = 2, m_cv = 5, offered_at = t_jan, accepted = Some True,
          accepted_at = Some t_jan\<rparr>],
      messages =
        [\<lparr>msg_pk = 1, msg_request = 1, sender = alice, text_body = ''hello'',
          sent_at = t_jan\<rparr>],
      financial_claims =
        [\<lparr>fc_pk = 1, fc_request = 1, fc_cv = 5, approved_by_pin = False,
          approved_by_csr = False, submitted_at = t_jan\<rparr>,
         \<lparr>fc_pk = 2, fc_request = 2, fc_cv = 5, approved_by_pin = True,
          approved_by_csr = False, submitted_at = t_jan\<rparr>],
      claim_items =
        [\<lparr>ci_pk = 1, ci_claim = 1, category = ''taxi'', date_of_expense = 20089,
          total_amount = dec_12_50, payment_method = ''cash'', ci_description = []\<rparr>,
         \<lparr>ci_pk = 2, ci_claim = 2, category = ''bus'', date_of_expense = 20089,
          total_amount = dec_0_00, payment_method = ''card'', ci_description = []\<rparr>],
      receipts =
        [\<lparr>rc_pk = 1, rc_item = 1, rc_image = ''receipts/a.png'', uploaded_at = t_jan\<rparr>,
         \<lparr>rc_pk = 2, rc_item = 2, rc_image = ''receipts/b.png'', uploaded_at = t_jan\<rparr>],
      disputes =
        [\<lparr>dp_pk = 1, dp_request = 1, dp_pin = alice, incorrect_amount = True,
          incorrect_item = False, incorrect_receipt = False, dp_description = ''too much'',
          dp_created_at = t_jan\<rparr>],
      next_request_pk = 3, next_pin_preference_pk = 2, next_match_pk = 3\<rparr>"

definition sample_db_after_delete :: db where
  "sample_db_after_delete =
     \<lparr>like_ignores_case = True, users = [alice, 5, 6],
      pin_preferences =
        [\<lparr>pp_pk = 1, pp_user = alice, preferred_language = ''en'',
          preferred_volunteer_gender = []\<rparr>],
      service_requests = [rq 2 ''RQ-2025-00002'' t_jan],
      request_views = [\<lparr>rv_pk = 2, rv_request = 2, viewer = 5, viewed_at = t_jan\<rparr>],
      shortlist_rows = [],
      matches =
        [\<lparr>m_pk = 2, m_request = 2, m_cv = 5, offered_at = t_jan, accepted = Some True,
          accepted_at = Some t_jan\<rparr>],
      messages = [],
      financial_claims =
        [\<lparr>fc_pk = 2, fc_request = 2, fc_cv = 5, approved_by_pin = True,
          approved_by_csr = False, submitted_at = t_jan\<rparr>],
      claim_items =
        [\<lparr>ci_pk = 2, ci_claim = 2, category = ''bus'', date_of_expense = 20089,
          total_amount = dec_0_00, payment_method = ''card'', ci_description = []\<rparr>],
      receipts =
        [\<lparr>rc_pk = 2, rc_item = 2, rc_image = ''receipts/b.png'', uploaded_at = t_jan\<rparr>],
      disputes = [],
      next_request_pk = 3, next_pin_preference_pk = 2, next_match_pk = 3\<rparr>"

section \<open>Properties\<close>

subsection \<open>Formatting\<close>

lemma digit_val_digit_char: "d < 10 \<Longrightarrow> digit_val (digit_char d) = d"
proof -
  assume "d < 10"
  then have "d \<in> {0, 1, 2, 3, 4, 5, 6, 7, 8, 9}" by auto
  then show ?thesis
    by (auto simp: digit_val_def digit_char_def)
qed

lemma nat_of_str_snoc: "nat_of_str (s @ [c]) = 10 * nat_of_str s + digit_val c"
  by (simp add: nat_of_str_def)

lemma nat_of_str_str_nat: "nat_of_str (str_nat n) = n"
proof (induction n rule: str_nat.induct)
  case (1 n)
  show ?case
  proof (cases "n < 10")
    case True
    then show ?thesis
      by (subst str_nat.simps) (simp add: nat_of_str_def digit_val_digit_char)
  next
    case False
    with 1 have "nat_of_str (str_nat (n div 10)) = n div 10" by simp
    with False show ?thesis
      by (subst str_nat.simps) (simp add: nat_of_str_snoc digit_val_digit_char)
  qed
qed

lemma nat_of_str_zeros: "nat_of_str (replicate k CHR ''0'' @ s) = nat_of_str s"
proof -
  have "foldl (\<lambda>a c. 10 * a + digit_val c) 0 (replicate k CHR ''0'') = 0"
    by (induction k) (simp_all add: digit_val_def)
  then show ?thesis by (simp add: nat_of_str_def)
qed

lemma nat_of_str_format_05d: "nat_of_str (format_05d n) = n"
  by (simp add: format_05d_def Let_def nat_of_str_zeros nat_of_str_str_nat)

lemma format_05d_inj: "format_05d a = format_05d b \<Longrightarrow> a = b"
  by (metis nat_of_str_format_05d)

lemma startswith_append: "startswith p (p @ s)"
  by (simp add: startswith_def)

lemma lookup_startswith_append: "lookup_startswith db p (p @ s)"
  by (simp add: lookup_startswith_def istartswith_def startswith_append)

lemma startswith_lookup: "startswith p s \<Longrightarrow> lookup_startswith db p s"
proof -
  assume "startswith p s"
  then have "s = p @ drop (length p) s"
    by (metis append_take_drop_id startswith_def)
  then show ?thesis
    using lookup_startswith_append [of db p "drop (length p) s"] by simp
qed

lemma lookup_startswith_insert [simp]:
  "lookup_startswith (db\<lparr>service_requests := rows, next_request_pk := n\<rparr>) =
     lookup_startswith db"
  by (simp add: lookup_startswith_def fun_eq_iff)

lemma length_str_nat_le: "0 < k \<Longrightarrow> n < 10 ^ k \<Longrightarrow> length (str_nat n) \<le> k"
proof (induction k arbitrary: n)
  case 0
  then show ?case by simp
next
  case (Suc k)
  show ?case
  proof (cases "n < 10")
    case True
    then show ?thesis by (subst str_nat.simps) simp
  next
    case False
    with Suc.prems have k: "0 < k" by (cases k) auto
    from Suc.prems have "n div 10 < 10 ^ k" by (simp add: less_mult_imp_div_less mult.commute)
    with Suc.IH k have "length (str_nat (n div 10)) \<le> k" by blast
    with False show ?thesis by (subst str_nat.simps) simp
  qed
qed

lemma length_format_05d_ge: "5 \<le> length (format_05d n)"
  by (simp add: format_05d_def Let_def)

lemma length_format_05d_eq: "n < 100000 \<Longrightarrow> length (format_05d n) = 5"
proof -
  assume "n < 100000"
  then have "length (str_nat n) \<le> 5"
    using length_str_nat_le [of 5 n] by simp
  then show ?thesis by (simp add: format_05d_def Let_def)
qed

lemma suffix_number_id: "suffix_number y (year_prefix y @ format_05d k) = k"
  by (simp add: suffix_number_def nat_of_str_format_05d)

subsection \<open>Creation\<close>

text \<open>What \<open>objects_create\<close> does, in one equation: it fails when the generated identifier
  is already stored or the owner is not a stored user, and otherwise appends the new row.\<close>

lemma objects_create_cases:
  "objects_create now db p st ad pl sl d =
     (if generated_id now db \<in> request_id ` set (service_requests db)
      then (Inl (IntegrityError UNIQUE), db)
      else if p \<notin> set (users db) then (Inl (IntegrityError FOREIGN_KEY), db)
      else (let c = \<lparr>pk = Some (next_request_pk db), request_id = generated_id now db, pin = p,
                      service_type = st, appointment_date = ad, pickup_location = pl,
                      service_location = sl, description = d, status = STATUS_PENDING,
                      date_created = Some now, views = 0, shortlists = 0\<rparr>
            in (Inr c, db\<lparr>service_requests := service_requests db @ [c],
                          next_request_pk := Suc (next_request_pk db)\<rparr>)))"
proof -
  have ex: "\<And>rid. (\<exists>x \<in> set (service_requests db). request_id x = rid) =
                 (rid \<in> request_id ` set (service_requests db))"
    by auto
  show ?thesis
    by (simp add: objects_create_def save_def Model_save_def insert_request_def new_request_def
          generated_id_def year_prefix_def Let_def ex)
qed

lemma generated_id_year_ids:
  assumes "year_ids y db = map (\<lambda>k. year_prefix y @ format_05d k) [1..<Suc m]"
      and "year_of now = y"
  shows "generated_id now db = year_prefix y @ format_05d (Suc m)"
    and "generated_id now db \<notin> request_id ` set (service_requests db)"
proof -
  have len: "length (filter (\<lambda>x. lookup_startswith db (year_prefix y) (request_id x))
                       (service_requests db)) = m"
    using arg_cong [OF assms(1), of length] by (simp add: year_ids_def)
  with assms(2) show g: "generated_id now db = year_prefix y @ format_05d (Suc m)"
    by (simp add: generated_id_def)
  show "generated_id now db \<notin> request_id ` set (service_requests db)"
  proof
    assume "generated_id now db \<in> request_id ` set (service_requests db)"
    then obtain x where x: "x \<in> set (service_requests db)"
      and rx: "request_id x = year_prefix y @ format_05d (Suc m)"
      using g by auto
    from rx have "lookup_startswith db (year_prefix y) (request_id x)"
      by (simp add: lookup_startswith_append)
    with x rx have "year_prefix y @ format_05d (Suc m) \<in> set (year_ids y db)"
      by (force simp: year_ids_def)
    then have "year_prefix y @ format_05d (Suc m) \<in>
                 (\<lambda>k. year_prefix y @ format_05d k) ` {1..<Suc m}"
      unfolding assms(1) by (simp del: upt_Suc)
    then obtain k where "k < Suc m" "format_05d (Suc m) = format_05d k"
      by auto
    then show False using format_05d_inj [of "Suc m" k] by simp
  qed
qed

lemma create_with_users: "users (snd (create_with db a)) = users db"
  by (simp add: create_with_def objects_create_cases Let_def)

lemma create_with_step:
  assumes "year_ids y db = map (\<lambda>k. year_prefix y @ format_05d k) [1..<Suc m]"
      and "year_of (ca_now a) = y"
      and "ca_pin a \<in> set (users db)"
  shows "created_id (fst (create_with db a)) = Some (year_prefix y @ format_05d (Suc m))"
    and "year_ids y (snd (create_with db a)) =
           map (\<lambda>k. year_prefix y @ format_05d k) [1..<Suc (Suc m)]"
  using generated_id_year_ids [OF assms(1,2)] assms(1,3)
  by (simp_all add: create_with_def objects_create_cases Let_def created_id_def year_ids_def
        lookup_startswith_append)

lemma create_seq_Cons_fst:
  "fst (create_seq db (a # as)) =
     fst (create_with db a) # fst (create_seq (snd (create_with db a)) as)"
  by (simp add: split_beta)

lemma create_seq_ids:
  assumes "year_ids y db = map (\<lambda>k. year_prefix y @ format_05d k) [1..<Suc m]"
      and "\<forall>a \<in> set as. year_of (ca_now a) = y"
      and "\<forall>a \<in> set as. ca_pin a \<in> set (users db)"
  shows "map created_id (fst (create_seq db as)) =
           map (\<lambda>k. Some (year_prefix y @ format_05d k)) [Suc m..<Suc m + length as]"
  using assms
proof (induction as arbitrary: db m)
  case Nil
  then show ?case by simp
next
  case (Cons a as)
  from Cons.prems have ya: "year_of (ca_now a) = y"
    and yas: "\<forall>a \<in> set as. year_of (ca_now a) = y"
    and pa: "ca_pin a \<in> set (users db)"
    and pas: "\<forall>b \<in> set as. ca_pin b \<in> set (users (snd (create_with db a)))"
    by (simp_all add: create_with_users)
  note step = create_with_step [OF Cons.prems(1) ya pa]
  have "map created_id (fst (create_seq (snd (create_with db a)) as)) =
          map (\<lambda>k. Some (year_prefix y @ format_05d k)) [Suc (Suc m)..<Suc (Suc m) + length as]"
    by (rule Cons.IH [OF step(2) yas pas])
  moreover have "[Suc m..<Suc m + length (a # as)] =
                   Suc m # [Suc (Suc m)..<Suc (Suc m) + length as]"
    by (simp add: upt_conv_Cons del: upt_Suc)
  ultimately show ?case
    using step(1) by (simp only: create_seq_Cons_fst list.map)
qed

lemma created_ids_of_Some: "map created_id rs = map Some xs \<Longrightarrow> created_ids rs = xs"
proof (induction rs arbitrary: xs)
  case Nil
  then show ?case by (simp add: created_ids_def)
next
  case (Cons r rs)
  then obtain x xs' where xs: "xs = x # xs'" by (cases xs) auto
  with Cons.prems have "created_id r = Some x" "map created_id rs = map Some xs'" by simp_all
  with Cons.IH [of xs'] xs show ?case by (simp add: created_ids_def)
qed

subsection \<open>Evaluation of the sample values\<close>

lemma year_of_t_jan: "year_of t_jan = 2025"
  unfolding year_of_def Let_def t_jan_def by simp

lemma year_of_t_jul: "year_of t_jul = 2025"
  unfolding year_of_def Let_def t_jul_def by simp

lemma year_prefix_2025: "year_prefix 2025 = ''RQ-2025-''"
  by (simp add: year_prefix_def str_int_def str_nat.simps digit_char_def)

lemma format_05d_small:
  "format_05d (Suc 0) = ''00001''" "format_05d 2 = ''00002''" "format_05d 3 = ''00003''"
  "format_05d 4 = ''00004''"
  by (simp_all add: format_05d_def str_nat.simps digit_char_def numeral_eq_Suc)

lemma format_05d_100000: "format_05d 100000 = ''100000''"
  by (simp add: format_05d_def str_nat.simps digit_char_def)

lemma rq_sel [simp]: "pk (rq k rid t) = Some k" "request_id (rq k rid t) = rid"
  by (simp_all add: rq_def)

lemma lookup_startswith_db_of:
  "lookup_startswith (db_of ci rows n) p s = (if ci then istartswith p s else startswith p s)"
  by (simp add: lookup_startswith_def db_of_def empty_db_def)

lemma generated_id_db_of_count:
  "year_of now = 2025 \<Longrightarrow>
   generated_id now (db_of ci rows n) =
     ''RQ-2025-'' @
     format_05d (Suc (length (filter (\<lambda>x. lookup_startswith (db_of ci rows n) ''RQ-2025-''
                                           (request_id x)) rows)))"
  by (simp add: generated_id_def year_prefix_2025) (simp add: db_of_def)

lemma generated_id_db_of:
  assumes "year_of now = 2025"
      and "list_all (\<lambda>x. startswith ''RQ-2025-'' (request_id x)) rows"
  shows "generated_id now (db_of ci rows n) = ''RQ-2025-'' @ format_05d (Suc (length rows))"
proof -
  from assms(2) have "filter (\<lambda>x. lookup_startswith (db_of ci rows n) ''RQ-2025-''
                                 (request_id x)) rows = rows"
    by (simp add: list_all_iff startswith_lookup)
  then show ?thesis
    by (simp add: generated_id_db_of_count [OF assms(1)])
qed

lemma create_with_db_of_count:
  assumes "year_of now = 2025"
      and "rid = generated_id now (db_of ci rows n)"
  shows "create_with (db_of ci rows n) (alice_args now) =
           (if rid \<in> request_id ` set rows then (Inl (IntegrityError UNIQUE), db_of ci rows n)
            else (Inr (rq n rid now), db_of ci (rows @ [rq n rid now]) (Suc n)))"
  using assms(2)
  by (simp add: create_with_def objects_create_cases alice_args_def Let_def)
     (simp add: db_of_def rq_def empty_db_def)

lemma create_with_db_of:
  assumes "year_of now = 2025"
      and "list_all (\<lambda>x. startswith ''RQ-2025-'' (request_id x)) rows"
      and "rid = ''RQ-2025-'' @ format_05d (Suc (length rows))"
  shows "create_with (db_of ci rows n) (alice_args now) =
           (if rid \<in> request_id ` set rows then (Inl (IntegrityError UNIQUE), db_of ci rows n)
            else (Inr (rq n rid now), db_of ci (rows @ [rq n rid now]) (Suc n)))"
  by (rule create_with_db_of_count [OF assms(1)])
     (simp add: generated_id_db_of [OF assms(1,2)] assms(3))

lemma delete_db_of:
  "delete (db_of ci rows n) (rq k rid t) =
     (None, (rq k rid t)\<lparr>pk := None\<rparr>, db_of ci (filter (\<lambda>x. pk x \<noteq> Some k) rows) n)"
  by (simp add: delete_def db_of_def empty_db_def Let_def)

lemmas eval_rules =
  format_05d_small startswith_def numeral_2_eq_2 [symmetric] numeral_3_eq_3 [symmetric]

lemma create_first:
  "create_with (db_of ci [] 1) (alice_args t_jan) =
     (Inr (rq 1 ''RQ-2025-00001'' t_jan), db_of ci [rq 1 ''RQ-2025-00001'' t_jan] 2)"
  by (simp add: create_with_db_of [OF year_of_t_jan] eval_rules)

lemma create_second:
  "create_with (db_of ci [rq 1 ''RQ-2025-00001'' t_jan] 2) (alice_args t_jan) =
     (Inr (rq 2 ''RQ-2025-00002'' t_jan),
      db_of ci [rq 1 ''RQ-2025-00001'' t_jan, rq 2 ''RQ-2025-00002'' t_jan] 3)"
  by (simp add: create_with_db_of [OF year_of_t_jan] eval_rules)

lemma delete_first_of_two:
  "delete (db_of ci [rq 1 ''RQ-2025-00001'' t_jan, rq 2 ''RQ-2025-00002'' t_jan] 3)
       (rq 1 ''RQ-2025-00001'' t_jan) =
     (None, (rq 1 ''RQ-2025-00001'' t_jan)\<lparr>pk := None\<rparr>,
      db_of ci [rq 2 ''RQ-2025-00002'' t_jan] 3)"
  by (simp add: delete_db_of)

lemma generated_after_delete:
  "generated_id t_jul (db_of ci [rq 2 ''RQ-2025-00002'' t_jan] 3) = ''RQ-2025-00002''"
  by (simp add: generated_id_db_of [OF year_of_t_jul] eval_rules)

lemma create_after_delete:
  "create_with (db_of ci [rq 2 ''RQ-2025-00002'' t_jan] 3) (alice_args t_jul) =
     (Inl (IntegrityError UNIQUE), db_of ci [rq 2 ''RQ-2025-00002'' t_jan] 3)"
  by (simp add: create_with_db_of [OF year_of_t_jul] eval_rules)

text \<open>The lookup follows the setting: a stored identifier in lower case is counted by
  default and is not counted when \<^verbatim>\<open>LIKE\<close> compares case.\<close>

lemma istartswith_lower_case: "istartswith ''RQ-2025-'' ''rq-2025-00001''"
  by (simp add: istartswith_def startswith_def ascii_lower_def)

lemma create_beside_lower_case:
  "create_with (db_of True [rq 1 ''rq-2025-00001'' t_jan] 2) (alice_args t_jan) =
     (Inr (rq 2 ''RQ-2025-00002'' t_jan),
      db_of True [rq 1 ''rq-2025-00001'' t_jan, rq 2 ''RQ-2025-00002'' t_jan] 3)"
  "create_with (db_of False [rq 1 ''rq-2025-00001'' t_jan] 2) (alice_args t_jan) =
     (Inr (rq 2 ''RQ-2025-00001'' t_jan),
      db_of False [rq 1 ''rq-2025-00001'' t_jan, rq 2 ''RQ-2025-00001'' t_jan] 3)"
  by (simp_all add: create_with_db_of_count [OF year_of_t_jan]
        generated_id_db_of_count [OF year_of_t_jan] lookup_startswith_db_of
        istartswith_lower_case eval_rules)

lemma service_requests_db_of: "service_requests (db_of ci rows n) = rows"
  by (simp add: db_of_def)

lemma save_same_identifier:
  "save t_jul (db_of True [rq 1 ''RQ-2025-00001'' t_jan] 2)
       ((rq 1 ''RQ-2025-00001'' t_jan)\<lparr>status := ''ACTIVE''\<rparr>) =
     (None, (rq 1 ''RQ-2025-00001'' t_jan)\<lparr>status := ''ACTIVE''\<rparr>,
      db_of True [(rq 1 ''RQ-2025-00001'' t_jan)\<lparr>status := ''ACTIVE''\<rparr>] 2)"
  by (simp add: save_def Model_save_def update_request_def db_of_def Let_def rq_def
        empty_db_def)

lemma save_other_identifier:
  "save t_jul (db_of ci [rq 1 ''RQ-2025-00001'' t_jan] 2) (rq 1 ''RQ-1999-00042'' t_jan) =
     (None, rq 1 ''RQ-1999-00042'' t_jan, db_of ci [rq 1 ''RQ-1999-00042'' t_jan] 2)"
  by (simp add: save_def Model_save_def update_request_def db_of_def Let_def rq_def
        empty_db_def)

lemma year_ids_empty:
  "\<forall>x \<in> set (service_requests db). \<not> lookup_startswith db (year_prefix y) (request_id x) \<Longrightarrow>
   year_ids y db = map (\<lambda>k. year_prefix y @ format_05d k) [1..<Suc 0]"
  by (simp add: year_ids_def filter_empty_conv)

lemma distinct_year_ids: "distinct (map (\<lambda>k. year_prefix y @ format_05d k) xs) = distinct xs"
  by (simp add: distinct_map inj_on_def format_05d_inj)

lemma last_created_id:
  assumes "map created_id rs = map f [1..<Suc n]" and "0 < n"
  shows "created_id (last rs) = f n"
proof -
  from assms have ne: "rs \<noteq> []" by (cases rs) (simp_all del: upt_Suc)
  then have "created_id (last rs) = last (map created_id rs)" by (simp add: last_map)
  also have "\<dots> = last (map f [1..<Suc n])" by (simp only: assms(1))
  also from assms(2) have "\<dots> = f n" by (simp add: last_map)
  finally show ?thesis .
qed

lemma create_100000:
  "created_id (last (fst (create_seq (db_of ci [] 1) (replicate 100000 (alice_args t_jan))))) =
     Some ''RQ-2025-100000''"
proof -
  have h1: "year_ids 2025 (db_of ci [] 1) =
              map (\<lambda>k. year_prefix 2025 @ format_05d k) [1..<Suc 0]"
    by (simp add: year_ids_def db_of_def)
  have h2: "\<forall>a \<in> set (replicate 100000 (alice_args t_jan)). year_of (ca_now a) = 2025"
    by (simp add: alice_args_def year_of_t_jan)
  have h3: "\<forall>a \<in> set (replicate 100000 (alice_args t_jan)).
              ca_pin a \<in> set (users (db_of ci [] 1))"
    by (simp add: alice_args_def db_of_def)
  have "map created_id (fst (create_seq (db_of ci [] 1) (replicate 100000 (alice_args t_jan)))) =
          map (\<lambda>k. Some (year_prefix 2025 @ format_05d k)) [1..<Suc 100000]"
    using create_seq_ids [OF h1 h2 h3] by (simp del: upt_Suc)
  then have "created_id (last (fst (create_seq (db_of ci [] 1)
                                     (replicate 100000 (alice_args t_jan))))) =
          Some (year_prefix 2025 @ format_05d 100000)"
    by (rule last_created_id) simp
  then show ?thesis by (simp add: format_05d_100000 year_prefix_2025)
qed

lemma create_third:
  "create_with (db_of ci [rq 1 ''RQ-2025-00001'' t_jan, rq 2 ''RQ-2025-00002'' t_jan] 3)
       (alice_args t_jan) =
     (Inr (rq 3 ''RQ-2025-00003'' t_jan),
      db_of ci [rq 1 ''RQ-2025-00001'' t_jan, rq 2 ''RQ-2025-00002'' t_jan,
             rq 3 ''RQ-2025-00003'' t_jan] 4)"
  by (simp add: create_with_db_of [OF year_of_t_jan] eval_rules)

lemma delete_first_of_three:
  "delete (db_of ci [rq 1 ''RQ-2025-00001'' t_jan, rq 2 ''RQ-2025-00002'' t_jan,
                  rq 3 ''RQ-2025-00003'' t_jan] 4) (rq 1 ''RQ-2025-00001'' t_jan) =
     (None, (rq 1 ''RQ-2025-00001'' t_jan)\<lparr>pk := None\<rparr>,
      db_of ci [rq 2 ''RQ-2025-00002'' t_jan, rq 3 ''RQ-2025-00003'' t_jan] 4)"
  by (simp add: delete_db_of)

lemma delete_second_of_three:
  "delete (db_of ci [rq 2 ''RQ-2025-00002'' t_jan, rq 3 ''RQ-2025-00003'' t_jan] 4)
       (rq 2 ''RQ-2025-00002'' t_jan) =
     (None, (rq 2 ''RQ-2025-00002'' t_jan)\<lparr>pk := None\<rparr>,
      db_of ci [rq 3 ''RQ-2025-00003'' t_jan] 4)"
  by (simp add: delete_db_of)

lemma create_after_two_deletes:
  "create_with (db_of ci [rq 3 ''RQ-2025-00003'' t_jan] 4) (alice_args t_jul) =
     (Inr (rq 4 ''RQ-2025-00002'' t_jul),
      db_of ci [rq 3 ''RQ-2025-00003'' t_jan, rq 4 ''RQ-2025-00002'' t_jul] 5)"
  by (simp add: create_with_db_of [OF year_of_t_jul] eval_rules)

subsection \<open>Duplication\<close>

lemma duplicate_cases:
  "duplicate now db r d =
     (if generated_id now db \<in> request_id ` set (service_requests db)
      then (Inl (IntegrityError UNIQUE), db)
      else if pin r \<notin> set (users db) then (Inl (IntegrityError FOREIGN_KEY), db)
      else (Inr \<lparr>pk = Some (next_request_pk db), request_id = generated_id now db, pin = pin r,
                 service_type = service_type r, appointment_date = d,
                 pickup_location = pickup_location r, service_location = service_location r,
                 description = description r, status = STATUS_PENDING,
                 date_created = Some now, views = 0, shortlists = 0\<rparr>,
            db\<lparr>service_requests := service_requests db @
                   [\<lparr>pk = Some (next_request_pk db), request_id = generated_id now db,
                     pin = pin r, service_type = service_type r, appointment_date = d,
                     pickup_location = pickup_location r,
                     service_location = service_location r, description = description r,
                     status = STATUS_PENDING, date_created = Some now, views = 0,
                     shortlists = 0\<rparr>],
               next_request_pk := Suc (next_request_pk db)\<rparr>))"
  by (simp add: duplicate_def objects_create_cases Let_def)

lemma request_exists_less:
  "sequence_ok db \<Longrightarrow> request_exists db p \<Longrightarrow> p < next_request_pk db"
  by (auto simp: sequence_ok_def request_exists_def list_all_iff list_ex_iff split: option.splits)

lemma no_rows_for_next_pk:
  assumes "sequence_ok db" and "list_all (\<lambda>x. request_exists db (f x)) xs"
  shows "filter (\<lambda>x. f x = next_request_pk db) xs = []"
proof -
  have "\<And>x. x \<in> set xs \<Longrightarrow> f x \<noteq> next_request_pk db"
    using assms request_exists_less [OF assms(1)] by (fastforce simp: list_all_iff)
  then show ?thesis by (simp add: filter_empty_conv)
qed

lemma duplicate_db_of:
  assumes "year_of now = 2025"
      and "list_all (\<lambda>x. startswith ''RQ-2025-'' (request_id x)) rows"
      and "rid = ''RQ-2025-'' @ format_05d (Suc (length rows))"
  shows "duplicate now (db_of ci rows n) (rq k rid' t) d =
           (if rid \<in> request_id ` set rows then (Inl (IntegrityError UNIQUE), db_of ci rows n)
            else (Inr ((rq n rid now)\<lparr>appointment_date := d\<rparr>),
                  db_of ci (rows @ [(rq n rid now)\<lparr>appointment_date := d\<rparr>]) (Suc n)))"
  using generated_id_db_of [OF assms(1,2), of ci n] assms(3)
  by (simp add: duplicate_cases)
     (simp add: db_of_def rq_def empty_db_def)

lemma duplicate_first:
  "duplicate t_jul (db_of ci [rq 1 ''RQ-2025-00001'' t_jan] 2) (rq 1 ''RQ-2025-00001'' t_jan)
       t_2026 =
     (Inr ((rq 2 ''RQ-2025-00002'' t_jul)\<lparr>appointment_date := t_2026\<rparr>),
      db_of ci [rq 1 ''RQ-2025-00001'' t_jan,
                (rq 2 ''RQ-2025-00002'' t_jul)\<lparr>appointment_date := t_2026\<rparr>] 3)"
  by (simp add: duplicate_db_of [OF year_of_t_jul] eval_rules)

lemma duplicate_beside_lower_case:
  "duplicate t_jul (db_of True [rq 1 ''rq-2025-00001'' t_jan, rq 2 ''RQ-2025-00002'' t_jan] 3)
       (rq 2 ''RQ-2025-00002'' t_jan) t_2026 =
     (Inr ((rq 3 ''RQ-2025-00003'' t_jul)\<lparr>appointment_date := t_2026\<rparr>),
      db_of True [rq 1 ''rq-2025-00001'' t_jan, rq 2 ''RQ-2025-00002'' t_jan,
                  (rq 3 ''RQ-2025-00003'' t_jul)\<lparr>appointment_date := t_2026\<rparr>] 4)"
proof -
  have g: "generated_id t_jul
             (db_of True [rq 1 ''rq-2025-00001'' t_jan, rq 2 ''RQ-2025-00002'' t_jan] 3) =
           ''RQ-2025-00003''"
    by (simp add: generated_id_db_of_count [OF year_of_t_jul] lookup_startswith_db_of
          istartswith_lower_case eval_rules)
       (simp add: istartswith_def startswith_def)
  show ?thesis
    unfolding duplicate_cases g by (simp add: db_of_def rq_def empty_db_def)
qed

lemma duplicate_after_delete:
  "duplicate t_jul (db_of ci [rq 2 ''RQ-2025-00002'' t_jan] 3) (rq 2 ''RQ-2025-00002'' t_jan)
       t_2026 =
     (Inl (IntegrityError UNIQUE), db_of ci [rq 2 ''RQ-2025-00002'' t_jan] 3)"
  by (simp add: duplicate_db_of [OF year_of_t_jul] eval_rules)

subsection \<open>Deletion\<close>

lemma pk_in_filtered:
  assumes "distinct (map k xs)" and "x \<in> set xs"
  shows "(k x \<in> set (map k (filter P xs))) = P x"
proof
  assume "k x \<in> set (map k (filter P xs))"
  then obtain y where y: "y \<in> set xs" "P y" "k x = k y" by auto
  from assms(1) have "inj_on k (set xs)" by (simp add: distinct_map)
  with assms(2) y have "x = y" by (auto dest: inj_onD)
  with y show "P x" by simp
next
  assume "P x"
  with assms(2) show "k x \<in> set (map k (filter P xs))" by auto
qed

lemma filter_not_collected:
  assumes "distinct (map k xs)"
  shows "filter (\<lambda>x. k x \<notin> set (map k (filter P xs))) xs = filter (\<lambda>x. \<not> P x) xs"
proof (rule filter_cong [OF refl])
  fix x
  assume "x \<in> set xs"
  then show "(k x \<notin> set (map k (filter P xs))) = (\<not> P x)"
    by (simp only: pk_in_filtered [OF assms])
qed

lemma item_in_claims:
  "(ci_claim i \<in> set (map fc_pk (filter (\<lambda>c. fc_request c = p) (financial_claims db)))) =
     item_of_request db p i"
  by (auto simp: item_of_request_def image_iff)

lemma receipt_in_items:
  "(rc_item r \<in> set (map ci_pk (filter (item_of_request db p) (claim_items db)))) =
     receipt_of_request db p r"
  by (auto simp: receipt_of_request_def image_iff)

lemma delete_claims:
  assumes "distinct (map fc_pk (financial_claims db))"
  shows "filter (\<lambda>c. fc_pk c \<notin>
                    set (map fc_pk (filter (\<lambda>c. fc_request c = p) (financial_claims db))))
           (financial_claims db) =
         filter (\<lambda>c. fc_request c \<noteq> p) (financial_claims db)"
  by (rule filter_not_collected [OF assms])

lemma delete_items:
  assumes "distinct (map ci_pk (claim_items db))"
  shows "filter (\<lambda>i. ci_pk i \<notin> set (map ci_pk (filter (\<lambda>i. ci_claim i \<in>
             set (map fc_pk (filter (\<lambda>c. fc_request c = p) (financial_claims db))))
             (claim_items db)))) (claim_items db) =
         filter (\<lambda>i. \<not> item_of_request db p i) (claim_items db)"
  unfolding item_in_claims by (rule filter_not_collected [OF assms])

lemma delete_receipts:
  "filter (\<lambda>r. rc_item r \<notin> set (map ci_pk (filter (\<lambda>i. ci_claim i \<in>
             set (map fc_pk (filter (\<lambda>c. fc_request c = p) (financial_claims db))))
             (claim_items db)))) (receipts db) =
         filter (\<lambda>r. \<not> receipt_of_request db p r) (receipts db)"
  unfolding item_in_claims receipt_in_items by (rule refl)

subsection \<open>The constraints are kept\<close>

text \<open>The empty store satisfies the constraints, and creation (hence duplication) and
  deletion keep them.\<close>

lemma wf_db_empty: "wf_db (empty_db ci)"
  by (simp add: wf_db_def primary_keys_ok_def sequence_ok_def foreign_keys_ok_def empty_db_def)

lemma objects_create_wf:
  assumes "wf_db db"
  shows "wf_db (snd (objects_create now db p st ad pl sl d))"
proof (cases "generated_id now db \<in> request_id ` set (service_requests db)")
  case True
  with assms show ?thesis by (simp add: objects_create_cases)
next
  case False
  from assms have pk: "primary_keys_ok db" and sq: "sequence_ok db" and fk: "foreign_keys_ok db"
    by (simp_all add: wf_db_def)
  have fresh: "Some (next_request_pk db) \<notin> pk ` set (service_requests db)"
  proof
    assume "Some (next_request_pk db) \<in> pk ` set (service_requests db)"
    then obtain x where "x \<in> set (service_requests db)" "pk x = Some (next_request_pk db)"
      by force
    with sq show False by (auto simp: sequence_ok_def list_all_iff)
  qed
  let ?c = "\<lparr>pk = Some (next_request_pk db), request_id = generated_id now db, pin = p,
            service_type = st, appointment_date = ad, pickup_location = pl,
            service_location = sl, description = d, status = STATUS_PENDING,
            date_created = Some now, views = 0, shortlists = 0\<rparr>"
  let ?db = "db\<lparr>service_requests := service_requests db @ [?c],
               next_request_pk := Suc (next_request_pk db)\<rparr>"
  have "primary_keys_ok ?db"
    using pk fresh by (simp add: primary_keys_ok_def)
  moreover have "sequence_ok ?db"
    using sq by (auto simp: sequence_ok_def list_all_iff split: option.splits)
  moreover have "foreign_keys_ok ?db"
    using fk by (auto simp: foreign_keys_ok_def list_all_iff request_exists_def)
  ultimately show ?thesis
    using False assms by (simp add: objects_create_cases wf_db_def Let_def)
qed

lemma delete_wf:
  assumes "wf_db db"
  shows "wf_db (snd (snd (delete db r)))"
proof (cases "pk r")
  case None
  with assms show ?thesis by (simp add: delete_def)
next
  case (Some p)
  from assms have pk: "primary_keys_ok db" and sq: "sequence_ok db" and fk: "foreign_keys_ok db"
    by (simp_all add: wf_db_def)
  from pk have dc: "distinct (map fc_pk (financial_claims db))"
    and di: "distinct (map ci_pk (claim_items db))"
    by (simp_all add: primary_keys_ok_def)
  let ?db = "db\<lparr>request_views := filter (\<lambda>v. rv_request v \<noteq> p) (request_views db),
              shortlist_rows := filter (\<lambda>s. sl_request s \<noteq> p) (shortlist_rows db),
              matches := filter (\<lambda>m. m_request m \<noteq> p) (matches db),
              messages := filter (\<lambda>m. msg_request m \<noteq> p) (messages db),
              disputes := filter (\<lambda>d. dp_request d \<noteq> p) (disputes db),
              receipts := filter (\<lambda>r. \<not> receipt_of_request db p r) (receipts db),
              claim_items := filter (\<lambda>i. \<not> item_of_request db p i) (claim_items db),
              financial_claims := filter (\<lambda>c. fc_request c \<noteq> p) (financial_claims db),
              service_requests := filter (\<lambda>x. pk x \<noteq> Some p) (service_requests db)\<rparr>"
  have del: "delete db r = (None, r\<lparr>pk := None\<rparr>, ?db)"
    unfolding delete_def Let_def delete_claims [OF dc] delete_items [OF di] delete_receipts
    using Some by simp
  have ex: "\<And>q. request_exists ?db q = (q \<noteq> p \<and> request_exists db q)"
    by (auto simp: request_exists_def list_ex_iff)
  have "primary_keys_ok ?db"
    using pk by (simp add: primary_keys_ok_def distinct_map_filter)
  moreover have "sequence_ok ?db"
    using sq by (auto simp: sequence_ok_def list_all_iff split: option.splits)
  moreover have "foreign_keys_ok ?db"
  proof -
    from fk have ic: "\<forall>i \<in> set (claim_items db).
                        \<exists>c \<in> set (financial_claims db). fc_pk c = ci_claim i"
      and ri: "\<forall>r \<in> set (receipts db). \<exists>i \<in> set (claim_items db). ci_pk i = rc_item r"
      by (simp_all add: foreign_keys_ok_def list_all_iff list_ex_iff)
    have i': "\<forall>i \<in> set (claim_items db). \<not> item_of_request db p i \<longrightarrow>
                (\<exists>c \<in> set (financial_claims db).
                    fc_request c \<noteq> p \<and> fc_pk c = ci_claim i)"
      using ic unfolding item_of_request_def by blast
    have r': "\<forall>r \<in> set (receipts db). \<not> receipt_of_request db p r \<longrightarrow>
                (\<exists>i \<in> set (claim_items db).
                    \<not> item_of_request db p i \<and> ci_pk i = rc_item r)"
      using ri unfolding receipt_of_request_def by blast
    from fk i' r' show ?thesis
      unfolding foreign_keys_ok_def list_all_iff list_ex_iff ex
      by simp blast
  qed
  ultimately show ?thesis
    by (simp add: del wf_db_def)
qed

lemma duplicate_wf: "wf_db db \<Longrightarrow> wf_db (snd (duplicate now db r d))"
  by (simp add: duplicate_def objects_create_wf)

subsection \<open>The sample store\<close>

lemma sample_request_sel [simp]:
  "pk sample_request = Some 1" "request_id sample_request = ''RQ-2025-00001''"
  "views sample_request = 2" "shortlists sample_request = 1"
  by (simp_all add: sample_request_def rq_def)

lemma pk_sample_db: "primary_keys_ok sample_db"
  by (simp add: primary_keys_ok_def sample_db_def)

lemma seq_sample_db: "sequence_ok sample_db"
  by (simp add: sequence_ok_def sample_db_def)

lemma fk_sample_db: "foreign_keys_ok sample_db"
  by (simp add: foreign_keys_ok_def request_exists_def sample_db_def)

lemma wf_sample_db: "wf_db sample_db"
  by (simp add: wf_db_def pk_sample_db seq_sample_db fk_sample_db)

lemma sample_db_requests:
  "service_requests sample_db = [sample_request, rq 2 ''RQ-2025-00002'' t_jan]"
  by (simp add: sample_db_def)

lemma generated_id_sample_db: "generated_id t_jul sample_db = ''RQ-2025-00003''"
  unfolding generated_id_def sample_db_requests year_of_t_jul year_prefix_2025
  by (simp add: format_05d_small startswith_lookup startswith_def numeral_3_eq_3 [symmetric])

lemma next_request_pk_sample_db: "next_request_pk sample_db = 3"
  by (simp add: sample_db_def)

lemma users_sample_db: "users sample_db = [alice, 5, 6]"
  by (simp add: sample_db_def)

lemma duplicate_sample:
  "duplicate t_jul sample_db sample_request t_2026 =
     (Inr ((rq 3 ''RQ-2025-00003'' t_jul)\<lparr>appointment_date := t_2026\<rparr>),
      sample_db\<lparr>service_requests :=
                  [sample_request, rq 2 ''RQ-2025-00002'' t_jan,
                   (rq 3 ''RQ-2025-00003'' t_jul)\<lparr>appointment_date := t_2026\<rparr>],
                next_request_pk := 4\<rparr>)"
  by (simp add: duplicate_cases generated_id_sample_db sample_db_requests
        next_request_pk_sample_db users_sample_db)
     (simp add: sample_request_def rq_def)

lemma delete_sample:
  "delete sample_db sample_request =
     (None, sample_request\<lparr>pk := None\<rparr>, sample_db_after_delete)"
  by (simp add: delete_def Let_def sample_db_def sample_db_after_delete_def sample_request_def
        rq_def)

subsection \<open>Validation\<close>

lemma dec_value_minus_0_01: "dec_value dec_minus_0_01 = - 1 / 100"
  by (simp add: dec_value_def dec_coefficient_def dec_minus_0_01_def)

lemma clean_total_amount_accepts:
  "(clean_total_amount v = Inr v) = (0 \<le> dec_value v \<and> DecimalValidator 10 2 v = None)"
  by (cases "DecimalValidator 10 2 v")
     (simp_all add: clean_total_amount_def run_validators_def List.map_filter_def
        MinValueValidator_def not_less)

lemma clean_total_amount_rejects:
  "(clean_total_amount v = Inl ValidationError) =
     (\<not> (0 \<le> dec_value v \<and> DecimalValidator 10 2 v = None))"
  by (cases "DecimalValidator 10 2 v")
     (simp_all add: clean_total_amount_def run_validators_def List.map_filter_def
        MinValueValidator_def not_le)

lemma clean_minus_0_01: "clean_total_amount dec_minus_0_01 = Inl ValidationError"
  by (simp add: clean_total_amount_rejects dec_value_minus_0_01)

lemma DecimalValidator_0_00: "DecimalValidator 10 2 dec_0_00 = None"
  by (simp add: DecimalValidator_def dec_0_00_def)

lemma clean_0_00: "clean_total_amount dec_0_00 = Inr dec_0_00"
  by (simp add: clean_total_amount_accepts DecimalValidator_0_00)
     (simp add: dec_value_def dec_coefficient_def dec_0_00_def)

section \<open>The claims\<close>

text \<open>
  C1 (as amended). Take a store in which the lookup of the database finds no identifier for the
  prefix of year \<open>y\<close>, and run any number of creations one after the other, all at times of
  year \<open>y\<close>, for owners that are stored users, and with nothing else in between. Every
  creation succeeds; the \<open>k\<close>-th one gets the identifier \<^verbatim>\<open>RQ-<y>-\<close> followed by \<open>k\<close>
  (the count of stored identifiers of the year plus one) in decimal, padded with zeros to at
  least five digits; the identifiers are pairwise distinct and their numeric suffixes are
  \<open>1, 2, \<dots>\<close>, strictly increasing. The suffix has exactly five digits in every run of fewer
  than 100000 creations.
\<close>

theorem sequential_request_ids:
  assumes "\<forall>x \<in> set (service_requests db).
             \<not> lookup_startswith db (year_prefix y) (request_id x)"
      and "\<forall>a \<in> set as. year_of (ca_now a) = y"
      and "\<forall>a \<in> set as. ca_pin a \<in> set (users db)"
  shows "map created_id (fst (create_seq db as)) =
           map (\<lambda>k. Some (year_prefix y @ format_05d k)) [1..<Suc (length as)]
         \<and> distinct (created_ids (fst (create_seq db as)))
         \<and> map (suffix_number y) (created_ids (fst (create_seq db as))) = [1..<Suc (length as)]
         \<and> sorted_wrt (<) (map (suffix_number y) (created_ids (fst (create_seq db as))))
         \<and> list_all (\<lambda>i. 5 \<le> length (drop (length (year_prefix y)) i))
               (created_ids (fst (create_seq db as)))
         \<and> (if length as < 100000
              then list_all (\<lambda>i. length (drop (length (year_prefix y)) i) = 5)
                     (created_ids (fst (create_seq db as)))
              else True)"
proof -
  have ids: "map created_id (fst (create_seq db as)) =
           map (\<lambda>k. Some (year_prefix y @ format_05d k)) [1..<Suc (length as)]"
    using create_seq_ids [OF year_ids_empty [OF assms(1)] assms(2,3)] by simp
  then have "map created_id (fst (create_seq db as)) =
           map Some (map (\<lambda>k. year_prefix y @ format_05d k) [1..<Suc (length as)])"
    by (simp add: comp_def)
  then have cids: "created_ids (fst (create_seq db as)) =
           map (\<lambda>k. year_prefix y @ format_05d k) [1..<Suc (length as)]"
    by (rule created_ids_of_Some)
  have d: "distinct (created_ids (fst (create_seq db as)))"
    unfolding cids distinct_year_ids by simp
  have n: "map (suffix_number y) (created_ids (fst (create_seq db as))) = [1..<Suc (length as)]"
    unfolding cids by (simp add: comp_def suffix_number_id del: upt_Suc)
  have s: "sorted_wrt (<) (map (suffix_number y) (created_ids (fst (create_seq db as))))"
    unfolding n by (rule sorted_wrt_upt)
  have g: "list_all (\<lambda>i. 5 \<le> length (drop (length (year_prefix y)) i))
             (created_ids (fst (create_seq db as)))"
    unfolding cids by (simp add: list_all_iff length_format_05d_ge del: upt_Suc)
  have e: "list_all (\<lambda>i. length (drop (length (year_prefix y)) i) = 5)
             (created_ids (fst (create_seq db as)))" if "length as < 100000"
    unfolding cids using that by (simp add: list_all_iff length_format_05d_eq del: upt_Suc)
  from ids d n s g e show ?thesis
    by simp
qed

text \<open>The two creations of the example, with the default lookup, in a store whose only other
  identifier, in lower case, belongs to another year.\<close>

theorem sequential_request_ids_witness:
  "list_all (\<lambda>x. \<not> istartswith (year_prefix 2025) (request_id x))
     (service_requests (db_of True [rq 1 ''rq-2024-00001'' t_jan] 2))
   \<and> map (\<lambda>a. year_of (ca_now a)) [alice_args t_jan, alice_args t_jul] = [2025, 2025]
   \<and> list_all (\<lambda>a. ca_pin a \<in> set (users (db_of True [rq 1 ''rq-2024-00001'' t_jan] 2)))
       [alice_args t_jan, alice_args t_jul]
   \<and> map created_id
         (fst (create_seq (db_of True [rq 1 ''rq-2024-00001'' t_jan] 2)
                 [alice_args t_jan, alice_args t_jul])) =
       [Some ''RQ-2025-00001'', Some ''RQ-2025-00002'']
   \<and> map (suffix_number 2025)
         (created_ids
            (fst (create_seq (db_of True [rq 1 ''rq-2024-00001'' t_jan] 2)
                    [alice_args t_jan, alice_args t_jul]))) = [1, 2]"
proof -
  have c: "list_all (\<lambda>x. \<not> istartswith (year_prefix 2025) (request_id x))
             (service_requests (db_of True [rq 1 ''rq-2024-00001'' t_jan] 2))"
    by (simp add: db_of_def year_prefix_2025 istartswith_def startswith_def ascii_lower_def)
  then have h1: "\<forall>x \<in> set (service_requests (db_of True [rq 1 ''rq-2024-00001'' t_jan] 2)).
              \<not> lookup_startswith (db_of True [rq 1 ''rq-2024-00001'' t_jan] 2)
                  (year_prefix 2025) (request_id x)"
    by (simp add: list_all_iff lookup_startswith_db_of)
  have h2: "\<forall>a \<in> set [alice_args t_jan, alice_args t_jul]. year_of (ca_now a) = 2025"
    by (simp add: alice_args_def year_of_t_jan year_of_t_jul)
  have h3: "\<forall>a \<in> set [alice_args t_jan, alice_args t_jul].
              ca_pin a \<in> set (users (db_of True [rq 1 ''rq-2024-00001'' t_jan] 2))"
    by (simp add: alice_args_def db_of_def)
  note t = sequential_request_ids [OF h1 h2 h3]
  have r: "[1..<Suc (length [alice_args t_jan, alice_args t_jul])] = [1, 2]"
    by (simp add: upt_conv_Cons)
  have a: "map created_id
             (fst (create_seq (db_of True [rq 1 ''rq-2024-00001'' t_jan] 2)
                     [alice_args t_jan, alice_args t_jul])) =
             [Some ''RQ-2025-00001'', Some ''RQ-2025-00002'']"
    unfolding t [THEN conjunct1] r by (simp add: year_prefix_2025 eval_rules)
  have b: "map (suffix_number 2025)
             (created_ids
                (fst (create_seq (db_of True [rq 1 ''rq-2024-00001'' t_jan] 2)
                        [alice_args t_jan, alice_args t_jul]))) =
           [1, 2]"
    unfolding t [THEN conjunct2, THEN conjunct2, THEN conjunct1] r by (rule refl)
  have d: "map (\<lambda>a. year_of (ca_now a)) [alice_args t_jan, alice_args t_jul] = [2025, 2025]"
    by (simp add: alice_args_def year_of_t_jan year_of_t_jul)
  have u: "list_all (\<lambda>a. ca_pin a \<in> set (users (db_of True [rq 1 ''rq-2024-00001'' t_jan] 2)))
             [alice_args t_jan, alice_args t_jul]"
    using h3 by (simp only: list_all_iff)
  from c d u a b show ?thesis by (intro conjI)
qed

text \<open>
  The claim as first stated does not hold, whichever way the lookup compares. The 100000th creation of a year
  gets a suffix of six digits. And when deletions come between the creations, the count can
  repeat: after three creations and the deletion of the first two requests, the next creation
  of the year gets the suffix \<open>00002\<close> a second time, below the \<open>00003\<close> that is still stored.
\<close>

theorem sequential_request_ids_counterexample:
  "list_all
     (\<lambda>ci.
        created_id (last (fst (create_seq (db_of ci [] 1)
                                 (replicate 100000 (alice_args t_jan))))) =
          Some ''RQ-2025-100000''
        \<and> create_with (db_of ci [] 1) (alice_args t_jan) =
            (Inr (rq 1 ''RQ-2025-00001'' t_jan), db_of ci [rq 1 ''RQ-2025-00001'' t_jan] 2)
        \<and> create_with (db_of ci [rq 1 ''RQ-2025-00001'' t_jan] 2) (alice_args t_jan) =
            (Inr (rq 2 ''RQ-2025-00002'' t_jan),
             db_of ci [rq 1 ''RQ-2025-00001'' t_jan, rq 2 ''RQ-2025-00002'' t_jan] 3)
        \<and> create_with (db_of ci [rq 1 ''RQ-2025-00001'' t_jan, rq 2 ''RQ-2025-00002'' t_jan] 3)
              (alice_args t_jan) =
            (Inr (rq 3 ''RQ-2025-00003'' t_jan),
             db_of ci [rq 1 ''RQ-2025-00001'' t_jan, rq 2 ''RQ-2025-00002'' t_jan,
                       rq 3 ''RQ-2025-00003'' t_jan] 4)
        \<and> delete (db_of ci [rq 1 ''RQ-2025-00001'' t_jan, rq 2 ''RQ-2025-00002'' t_jan,
                            rq 3 ''RQ-2025-00003'' t_jan] 4) (rq 1 ''RQ-2025-00001'' t_jan) =
            (None, (rq 1 ''RQ-2025-00001'' t_jan)\<lparr>pk := None\<rparr>,
             db_of ci [rq 2 ''RQ-2025-00002'' t_jan, rq 3 ''RQ-2025-00003'' t_jan] 4)
        \<and> delete (db_of ci [rq 2 ''RQ-2025-00002'' t_jan, rq 3 ''RQ-2025-00003'' t_jan] 4)
              (rq 2 ''RQ-2025-00002'' t_jan) =
            (None, (rq 2 ''RQ-2025-00002'' t_jan)\<lparr>pk := None\<rparr>,
             db_of ci [rq 3 ''RQ-2025-00003'' t_jan] 4)
        \<and> create_with (db_of ci [rq 3 ''RQ-2025-00003'' t_jan] 4) (alice_args t_jul) =
            (Inr (rq 4 ''RQ-2025-00002'' t_jul),
             db_of ci [rq 3 ''RQ-2025-00003'' t_jan, rq 4 ''RQ-2025-00002'' t_jul] 5))
     [False, True]"
  by (simp only: list.pred_inject create_100000 create_first create_second create_third
        delete_first_of_three delete_second_of_three create_after_two_deletes simp_thms)

text \<open>
  C2 (as amended). Let \<open>r\<close> be a stored request whose owner is a stored user, and \<open>d\<close> a date.
  \<open>duplicate\<close> fails with the integrity error of the unique column, leaving the store as it
  was, exactly when the identifier that \<open>save\<close> generates (from the count that the lookup of the
  database gives) is already stored. Otherwise it returns a new request and appends it to the
  table, every other row and table staying as it was: the identifier of the copy differs from
  the one of \<open>r\<close>; pin, service type, both locations and description are those of \<open>r\<close>; the
  appointment date is \<open>d\<close>, the status is PENDING and the creation time is the time of the call.
\<close>

theorem duplicate_copies_fields:
  assumes "r \<in> set (service_requests db)" and "pin r \<in> set (users db)"
  shows "case duplicate now db r d of
           (Inl e, db') \<Rightarrow>
             e = IntegrityError UNIQUE \<and> db' = db \<and>
             generated_id now db \<in> request_id ` set (service_requests db)
         | (Inr c, db') \<Rightarrow>
             generated_id now db \<notin> request_id ` set (service_requests db) \<and>
             db' = db\<lparr>service_requests := service_requests db @ [c],
                       next_request_pk := Suc (next_request_pk db)\<rparr> \<and>
             request_id c = generated_id now db \<and> request_id c \<noteq> request_id r \<and>
             pin c = pin r \<and> service_type c = service_type r \<and>
             pickup_location c = pickup_location r \<and>
             service_location c = service_location r \<and> description c = description r \<and>
             appointment_date c = d \<and> status c = STATUS_PENDING \<and>
             date_created c = Some now"
proof (cases "generated_id now db \<in> request_id ` set (service_requests db)")
  case True
  then show ?thesis by (simp add: duplicate_cases)
next
  case False
  with assms(1) have "generated_id now db \<noteq> request_id r" by auto
  with False assms(2) show ?thesis by (simp add: duplicate_cases)
qed

text \<open>With the default lookup, beside a stored identifier in lower case that the lookup
  counts: the copy of the second request gets the suffix \<open>00003\<close>.\<close>

theorem duplicate_copies_fields_witness:
  "rq 2 ''RQ-2025-00002'' t_jan \<in>
     set (service_requests
            (db_of True [rq 1 ''rq-2025-00001'' t_jan, rq 2 ''RQ-2025-00002'' t_jan] 3))
   \<and> pin (rq 2 ''RQ-2025-00002'' t_jan) \<in>
       set (users (db_of True [rq 1 ''rq-2025-00001'' t_jan, rq 2 ''RQ-2025-00002'' t_jan] 3))
   \<and> duplicate t_jul
         (db_of True [rq 1 ''rq-2025-00001'' t_jan, rq 2 ''RQ-2025-00002'' t_jan] 3)
         (rq 2 ''RQ-2025-00002'' t_jan) t_2026 =
       (Inr ((rq 3 ''RQ-2025-00003'' t_jul)\<lparr>appointment_date := t_2026\<rparr>),
        db_of True [rq 1 ''rq-2025-00001'' t_jan, rq 2 ''RQ-2025-00002'' t_jan,
                    (rq 3 ''RQ-2025-00003'' t_jul)\<lparr>appointment_date := t_2026\<rparr>] 4)
   \<and> request_id ((rq 3 ''RQ-2025-00003'' t_jul)\<lparr>appointment_date := t_2026\<rparr>) \<noteq>
       request_id (rq 2 ''RQ-2025-00002'' t_jan)
   \<and> pin ((rq 3 ''RQ-2025-00003'' t_jul)\<lparr>appointment_date := t_2026\<rparr>) =
       pin (rq 2 ''RQ-2025-00002'' t_jan)
   \<and> date_created ((rq 3 ''RQ-2025-00003'' t_jul)\<lparr>appointment_date := t_2026\<rparr>) = Some t_jul"
proof -
  have m: "rq 2 ''RQ-2025-00002'' t_jan \<in>
             set (service_requests
                    (db_of True [rq 1 ''rq-2025-00001'' t_jan, rq 2 ''RQ-2025-00002'' t_jan] 3))"
    by (simp add: db_of_def)
  have u: "pin (rq 2 ''RQ-2025-00002'' t_jan) \<in>
             set (users (db_of True [rq 1 ''rq-2025-00001'' t_jan,
                                     rq 2 ''RQ-2025-00002'' t_jan] 3))"
    by (simp add: db_of_def rq_def)
  note t = duplicate_copies_fields [OF m u, of t_jul t_2026,
      unfolded duplicate_beside_lower_case prod.case sum.case]
  note f1 = t [THEN conjunct2, THEN conjunct2, THEN conjunct2, THEN conjunct1]
  note f2 = t [THEN conjunct2, THEN conjunct2, THEN conjunct2, THEN conjunct2, THEN conjunct1]
  have f3: "date_created ((rq 3 ''RQ-2025-00003'' t_jul)\<lparr>appointment_date := t_2026\<rparr>) =
              Some t_jul"
    using t by (elim conjE)
  from m u duplicate_beside_lower_case f1 f2 f3 show ?thesis by (intro conjI)
qed

text \<open>The claim as first stated does not hold, since \<open>duplicate\<close> does not always return a
  request: whichever way the lookup compares, after two creations in 2025 and the deletion of
  the first request,
  duplicating the second request generates its own identifier again and fails.\<close>

theorem duplicate_copies_fields_counterexample:
  "list_all
     (\<lambda>ci.
        create_with (db_of ci [] 1) (alice_args t_jan) =
            (Inr (rq 1 ''RQ-2025-00001'' t_jan), db_of ci [rq 1 ''RQ-2025-00001'' t_jan] 2)
        \<and> create_with (db_of ci [rq 1 ''RQ-2025-00001'' t_jan] 2) (alice_args t_jan) =
            (Inr (rq 2 ''RQ-2025-00002'' t_jan),
             db_of ci [rq 1 ''RQ-2025-00001'' t_jan, rq 2 ''RQ-2025-00002'' t_jan] 3)
        \<and> delete (db_of ci [rq 1 ''RQ-2025-00001'' t_jan, rq 2 ''RQ-2025-00002'' t_jan] 3)
              (rq 1 ''RQ-2025-00001'' t_jan) =
            (None, (rq 1 ''RQ-2025-00001'' t_jan)\<lparr>pk := None\<rparr>,
             db_of ci [rq 2 ''RQ-2025-00002'' t_jan] 3)
        \<and> service_requests (db_of ci [rq 2 ''RQ-2025-00002'' t_jan] 3) =
            [rq 2 ''RQ-2025-00002'' t_jan]
        \<and> users (db_of ci [rq 2 ''RQ-2025-00002'' t_jan] 3) =
            [pin (rq 2 ''RQ-2025-00002'' t_jan)]
        \<and> duplicate t_jul (db_of ci [rq 2 ''RQ-2025-00002'' t_jan] 3)
              (rq 2 ''RQ-2025-00002'' t_jan) t_2026 =
            (Inl (IntegrityError UNIQUE), db_of ci [rq 2 ''RQ-2025-00002'' t_jan] 3))
     [False, True]"
proof -
  have a: "\<And>ci. service_requests (db_of ci [rq 2 ''RQ-2025-00002'' t_jan] 3) =
             [rq 2 ''RQ-2025-00002'' t_jan]"
    by (simp add: db_of_def)
  have b: "\<And>ci. users (db_of ci [rq 2 ''RQ-2025-00002'' t_jan] 3) =
             [pin (rq 2 ''RQ-2025-00002'' t_jan)]"
    by (simp add: db_of_def rq_def)
  show ?thesis
    by (simp only: list.pred_inject create_first create_second delete_first_of_two
          duplicate_after_delete a b simp_thms)
qed

text \<open>
  C3. \<open>is_expired\<close> is true exactly when the current time strictly exceeds the creation time by
  more than ten minutes; so it is false at the creation time, false 9 minutes 59 seconds later
  and true 10 minutes 1 second later.
\<close>

theorem is_expired_strict:
  "is_expired now t = (created_at t + timedelta_minutes 10 < now)
   \<and> is_expired (created_at t) t = False
   \<and> is_expired (created_at t + timedelta_minutes 9 + timedelta_seconds 59) t = False
   \<and> is_expired (created_at t + timedelta_minutes 10 + timedelta_seconds 1) t = True"
  by (simp add: is_expired_def timedelta_minutes_def timedelta_seconds_def)

text \<open>
  C4. Let \<open>r\<close> be a request with primary key \<open>p\<close>, in a store whose primary keys are unique.
  Deleting \<open>r\<close> succeeds and leaves no view, shortlist, match, message, claim or dispute of \<open>p\<close>,
  no item of a claim of \<open>p\<close> and no receipt of such an item. Each table afterwards holds exactly
  the rows it held before that do not belong to \<open>p\<close>, in the same order; the preferences and
  the users are untouched.
\<close>

theorem delete_cascades:
  assumes "primary_keys_ok db" and "pk r = Some p"
  shows "case delete db r of
           (e, r', db') \<Rightarrow>
             e = None \<and>
             view_logs db' p = [] \<and> shortlist_logs db' p = [] \<and> match_of db' p = [] \<and>
             messages_of db' p = [] \<and> claims db' p = [] \<and> disputes_of db' p = [] \<and>
             filter (item_of_request db p) (claim_items db') = [] \<and>
             filter (receipt_of_request db p) (receipts db') = [] \<and>
             service_requests db' = filter (\<lambda>x. pk x \<noteq> Some p) (service_requests db) \<and>
             request_views db' = filter (\<lambda>v. rv_request v \<noteq> p) (request_views db) \<and>
             shortlist_rows db' = filter (\<lambda>s. sl_request s \<noteq> p) (shortlist_rows db) \<and>
             matches db' = filter (\<lambda>m. m_request m \<noteq> p) (matches db) \<and>
             messages db' = filter (\<lambda>m. msg_request m \<noteq> p) (messages db) \<and>
             disputes db' = filter (\<lambda>d. dp_request d \<noteq> p) (disputes db) \<and>
             financial_claims db' = filter (\<lambda>c. fc_request c \<noteq> p) (financial_claims db) \<and>
             claim_items db' = filter (\<lambda>i. \<not> item_of_request db p i) (claim_items db) \<and>
             receipts db' = filter (\<lambda>r. \<not> receipt_of_request db p r) (receipts db) \<and>
             pin_preferences db' = pin_preferences db \<and> users db' = users db"
proof -
  from assms(1) have dc: "distinct (map fc_pk (financial_claims db))"
    and di: "distinct (map ci_pk (claim_items db))"
    by (simp_all add: primary_keys_ok_def)
  have "delete db r =
          (None, r\<lparr>pk := None\<rparr>,
           db\<lparr>request_views := filter (\<lambda>v. rv_request v \<noteq> p) (request_views db),
              shortlist_rows := filter (\<lambda>s. sl_request s \<noteq> p) (shortlist_rows db),
              matches := filter (\<lambda>m. m_request m \<noteq> p) (matches db),
              messages := filter (\<lambda>m. msg_request m \<noteq> p) (messages db),
              disputes := filter (\<lambda>d. dp_request d \<noteq> p) (disputes db),
              receipts := filter (\<lambda>r. \<not> receipt_of_request db p r) (receipts db),
              claim_items := filter (\<lambda>i. \<not> item_of_request db p i) (claim_items db),
              financial_claims := filter (\<lambda>c. fc_request c \<noteq> p) (financial_claims db),
              service_requests := filter (\<lambda>x. pk x \<noteq> Some p) (service_requests db)\<rparr>)"
    unfolding delete_def Let_def delete_claims [OF dc] delete_items [OF di] delete_receipts
    using assms(2) by simp
  then show ?thesis
    by (simp add: view_logs_def shortlist_logs_def match_of_def messages_of_def claims_def
          disputes_of_def filter_empty_conv)
qed

theorem delete_cascades_witness:
  "primary_keys_ok sample_db \<and> pk sample_request = Some 1
   \<and> delete sample_db sample_request =
       (None, sample_request\<lparr>pk := None\<rparr>, sample_db_after_delete)
   \<and> length (view_logs sample_db 1) = 2
   \<and> view_logs sample_db_after_delete 1 = []
   \<and> claims sample_db_after_delete 1 = []
   \<and> filter (item_of_request sample_db 1) (claim_items sample_db_after_delete) = []
   \<and> filter (receipt_of_request sample_db 1) (receipts sample_db_after_delete) = []
   \<and> length (claim_items sample_db_after_delete) = 1"
proof -
  have p: "pk sample_request = Some 1" by simp
  note t = delete_cascades [OF pk_sample_db p, unfolded delete_sample prod.case]
  have a: "length (view_logs sample_db 1) = 2"
    by (simp add: view_logs_def sample_db_def)
  have b: "length (claim_items sample_db_after_delete) = 1"
    by (simp add: sample_db_after_delete_def)
  from pk_sample_db p delete_sample a b t show ?thesis
    by simp
qed

text \<open>
  C5. When a \<open>PINPreference\<close> row is stored for user \<open>u\<close>, creating another one for \<open>u\<close>
  fails with the integrity error of the unique column, and the store is unchanged.
\<close>

theorem second_PINPreference_fails:
  "\<exists>x \<in> set (pin_preferences db). pp_user x = u \<Longrightarrow>
   PINPreference_create db u lang gender = (Inl (IntegrityError UNIQUE), db)"
  by (simp add: PINPreference_create_def)

theorem second_PINPreference_fails_witness:
  "PINPreference_create (empty_db True) alice ''en'' [] =
     (Inr \<lparr>pp_pk = 1, pp_user = alice, preferred_language = ''en'',
           preferred_volunteer_gender = []\<rparr>,
      (empty_db True)\<lparr>pin_preferences :=
                 [\<lparr>pp_pk = 1, pp_user = alice, preferred_language = ''en'',
                   preferred_volunteer_gender = []\<rparr>],
               next_pin_preference_pk := 2\<rparr>)
   \<and> PINPreference_create
         ((empty_db True)\<lparr>pin_preferences :=
                     [\<lparr>pp_pk = 1, pp_user = alice, preferred_language = ''en'',
                       preferred_volunteer_gender = []\<rparr>],
                   next_pin_preference_pk := 2\<rparr>) alice ''zh'' ''F'' =
       (Inl (IntegrityError UNIQUE),
        (empty_db True)\<lparr>pin_preferences :=
                   [\<lparr>pp_pk = 1, pp_user = alice, preferred_language = ''en'',
                     preferred_volunteer_gender = []\<rparr>],
                 next_pin_preference_pk := 2\<rparr>)"
proof -
  have "PINPreference_create (empty_db True) alice ''en'' [] =
     (Inr \<lparr>pp_pk = 1, pp_user = alice, preferred_language = ''en'',
           preferred_volunteer_gender = []\<rparr>,
      (empty_db True)\<lparr>pin_preferences :=
                 [\<lparr>pp_pk = 1, pp_user = alice, preferred_language = ''en'',
                   preferred_volunteer_gender = []\<rparr>],
               next_pin_preference_pk := 2\<rparr>)"
    by (simp add: PINPreference_create_def empty_db_def Let_def numeral_2_eq_2)
  moreover have "\<exists>x \<in> set (pin_preferences
                   ((empty_db True)\<lparr>pin_preferences :=
                     [\<lparr>pp_pk = 1, pp_user = alice, preferred_language = ''en'',
                       preferred_volunteer_gender = []\<rparr>],
                   next_pin_preference_pk := 2\<rparr>)). pp_user x = alice"
    by simp
  ultimately show ?thesis
    using second_PINPreference_fails by blast
qed

text \<open>
  C6. When a \<open>Match\<close> row is stored for request \<open>req\<close>, creating another one for \<open>req\<close>
  fails with the integrity error of the unique column, and the store is unchanged.
\<close>

theorem second_Match_fails:
  "\<exists>x \<in> set (matches db). m_request x = req \<Longrightarrow>
   Match_create db req v off acc acc_at = (Inl (IntegrityError UNIQUE), db)"
  by (simp add: Match_create_def)

theorem second_Match_fails_witness:
  "(\<exists>x \<in> set (matches sample_db). m_request x = 1)
   \<and> Match_create sample_db 1 6 t_jul None None = (Inl (IntegrityError UNIQUE), sample_db)"
proof -
  have "\<exists>x \<in> set (matches sample_db). m_request x = 1"
    by (simp add: sample_db_def)
  then show ?thesis
    using second_Match_fails by blast
qed

text \<open>
  C7 (as amended). Validation of \<open>total_amount\<close> rejects every negative value, and accepts a
  non-negative value exactly when it also fits the declared precision (at most 10 digits, at
  most 2 decimal places, at most 8 digits before the point); \<open>-0.01\<close> is rejected and \<open>0.00\<close>
  is accepted.
\<close>

theorem total_amount_validation:
  "clean_total_amount v =
     (if 0 \<le> dec_value v \<and> DecimalValidator 10 2 v = None then Inr v else Inl ValidationError)
   \<and> clean_total_amount dec_minus_0_01 = Inl ValidationError
   \<and> clean_total_amount dec_0_00 = Inr dec_0_00"
  using clean_total_amount_accepts [of v] clean_total_amount_rejects [of v]
    clean_minus_0_01 clean_0_00
  by simp

theorem total_amount_validation_witness:
  "dec_value dec_12_50 = 25 / 2 \<and> DecimalValidator 10 2 dec_12_50 = None
   \<and> clean_total_amount dec_12_50 = Inr dec_12_50"
proof -
  have v: "dec_value dec_12_50 = 25 / 2"
    by (simp add: dec_value_def dec_coefficient_def dec_12_50_def)
  have d: "DecimalValidator 10 2 dec_12_50 = None"
    by (simp add: DecimalValidator_def dec_12_50_def)
  from total_amount_validation [of dec_12_50] v d show ?thesis by simp
qed

text \<open>The claim as first stated does not hold: \<open>0.001\<close> is not negative and is rejected, for
  its three decimal places.\<close>

theorem total_amount_counterexample:
  "0 \<le> dec_value dec_0_001 \<and> clean_total_amount dec_0_001 = Inl ValidationError"
proof -
  have "DecimalValidator 10 2 dec_0_001 = Some ValidationError"
    by (simp add: DecimalValidator_def dec_0_001_def)
  moreover have "0 \<le> dec_value dec_0_001"
    by (simp add: dec_value_def dec_coefficient_def dec_0_001_def)
  ultimately show ?thesis
    by (simp add: clean_total_amount_rejects)
qed

text \<open>
  C8 (as amended). When the instance has a non-empty \<open>request_id\<close>, \<open>save\<close> generates none
  and leaves the one of the instance as it is, whatever the time and the store and whether or
  not the write succeeds; after a successful save the instance is stored with that identifier.
  When moreover the stored rows under the primary key of the instance carry the identifier of
  the instance, every row stored before the call keeps its primary key and its identifier.
\<close>

theorem save_keeps_request_id:
  assumes "request_id r \<noteq> []"
  shows "case save now db r of
           (e, r', db') \<Rightarrow>
             request_id r' = request_id r \<and>
             (e = None \<longrightarrow> r' \<in> set (service_requests db')) \<and>
             ((\<forall>x \<in> set (service_requests db). pk x = pk r \<longrightarrow> request_id x = request_id r) \<longrightarrow>
                map (\<lambda>x. (pk x, request_id x))
                  (take (length (service_requests db)) (service_requests db')) =
                map (\<lambda>x. (pk x, request_id x)) (service_requests db))"
proof -
  have u: "map (\<lambda>x. (pk x, request_id x))
             (map (\<lambda>x. if pk x = pk r then r else x) (service_requests db)) =
           map (\<lambda>x. (pk x, request_id x)) (service_requests db)"
    if "\<forall>x \<in> set (service_requests db). pk x = pk r \<longrightarrow> request_id x = request_id r"
    using that by (induction "service_requests db") auto
  show ?thesis
    using assms u
    by (auto simp: save_def Model_save_def insert_request_def update_request_def Let_def
        split: option.splits)
qed

text \<open>Saving a stored request under its own identifier with a new status.\<close>

theorem save_keeps_request_id_witness:
  "request_id ((rq 1 ''RQ-2025-00001'' t_jan)\<lparr>status := ''ACTIVE''\<rparr>) \<noteq> []
   \<and> map request_id
       (filter (\<lambda>x. pk x = pk ((rq 1 ''RQ-2025-00001'' t_jan)\<lparr>status := ''ACTIVE''\<rparr>))
          (service_requests (db_of True [rq 1 ''RQ-2025-00001'' t_jan] 2))) =
       [request_id ((rq 1 ''RQ-2025-00001'' t_jan)\<lparr>status := ''ACTIVE''\<rparr>)]
   \<and> save t_jul (db_of True [rq 1 ''RQ-2025-00001'' t_jan] 2)
         ((rq 1 ''RQ-2025-00001'' t_jan)\<lparr>status := ''ACTIVE''\<rparr>) =
       (None, (rq 1 ''RQ-2025-00001'' t_jan)\<lparr>status := ''ACTIVE''\<rparr>,
        db_of True [(rq 1 ''RQ-2025-00001'' t_jan)\<lparr>status := ''ACTIVE''\<rparr>] 2)
   \<and> map (\<lambda>x. (pk x, request_id x))
         (service_requests
            (db_of True [(rq 1 ''RQ-2025-00001'' t_jan)\<lparr>status := ''ACTIVE''\<rparr>] 2)) =
       map (\<lambda>x. (pk x, request_id x))
         (service_requests (db_of True [rq 1 ''RQ-2025-00001'' t_jan] 2))"
proof -
  have ne: "request_id ((rq 1 ''RQ-2025-00001'' t_jan)\<lparr>status := ''ACTIVE''\<rparr>) \<noteq> []"
    by simp
  have st: "map request_id
       (filter (\<lambda>x. pk x = pk ((rq 1 ''RQ-2025-00001'' t_jan)\<lparr>status := ''ACTIVE''\<rparr>))
          (service_requests (db_of True [rq 1 ''RQ-2025-00001'' t_jan] 2))) =
       [request_id ((rq 1 ''RQ-2025-00001'' t_jan)\<lparr>status := ''ACTIVE''\<rparr>)]"
    by (simp add: db_of_def)
  have h: "\<forall>x \<in> set (service_requests (db_of True [rq 1 ''RQ-2025-00001'' t_jan] 2)).
             pk x = pk ((rq 1 ''RQ-2025-00001'' t_jan)\<lparr>status := ''ACTIVE''\<rparr>) \<longrightarrow>
             request_id x = request_id ((rq 1 ''RQ-2025-00001'' t_jan)\<lparr>status := ''ACTIVE''\<rparr>)"
    by (simp add: db_of_def)
  note t = save_keeps_request_id [OF ne, where now = t_jul
      and db = "db_of True [rq 1 ''RQ-2025-00001'' t_jan] 2",
      unfolded save_same_identifier prod.case]
  have k: "map (\<lambda>x. (pk x, request_id x))
         (service_requests
            (db_of True [(rq 1 ''RQ-2025-00001'' t_jan)\<lparr>status := ''ACTIVE''\<rparr>] 2)) =
       map (\<lambda>x. (pk x, request_id x))
         (service_requests (db_of True [rq 1 ''RQ-2025-00001'' t_jan] 2))"
    using t [THEN conjunct2, THEN conjunct2, THEN mp, OF h] by (simp add: db_of_def)
  from ne st save_same_identifier k show ?thesis by (intro conjI)
qed

text \<open>
  The claim as first stated does not hold: the identifier is not immutable. \<open>save\<close> writes
  the identifier that the instance carries, so an instance of a stored request that has been
  given another non-empty identifier replaces the stored one (\<^verbatim>\<open>editable=False\<close> keeps the
  field out of forms only). The stored \<open>RQ-2025-00001\<close> of request 1 becomes
  \<open>RQ-1999-00042\<close>.
\<close>

theorem save_keeps_request_id_counterexample:
  "list_all
     (\<lambda>ci.
        service_requests (db_of ci [rq 1 ''RQ-2025-00001'' t_jan] 2) =
          [rq 1 ''RQ-2025-00001'' t_jan]
        \<and> save t_jul (db_of ci [rq 1 ''RQ-2025-00001'' t_jan] 2) (rq 1 ''RQ-1999-00042'' t_jan) =
            (None, rq 1 ''RQ-1999-00042'' t_jan, db_of ci [rq 1 ''RQ-1999-00042'' t_jan] 2)
        \<and> service_requests (db_of ci [rq 1 ''RQ-1999-00042'' t_jan] 2) =
            [rq 1 ''RQ-1999-00042'' t_jan])
     [False, True]"
  by (simp only: list.pred_inject save_other_identifier service_requests_db_of simp_thms)

text \<open>
  C9. Without any concurrency the count can name an identifier that is already stored:
  whichever way the lookup compares, in a store with one user, create two requests in 2025,
  delete the first, and create a third in the same year. One identifier of the year is left, so the count gives the
  suffix \<open>00002\<close> again; that identifier is the one of the second request, and the creation
  fails with the integrity error of the unique column.
\<close>

theorem identifier_reused_after_deletion:
  "list_all
     (\<lambda>ci.
        create_with (db_of ci [] 1) (alice_args t_jan) =
            (Inr (rq 1 ''RQ-2025-00001'' t_jan), db_of ci [rq 1 ''RQ-2025-00001'' t_jan] 2)
        \<and> create_with (db_of ci [rq 1 ''RQ-2025-00001'' t_jan] 2) (alice_args t_jan) =
            (Inr (rq 2 ''RQ-2025-00002'' t_jan),
             db_of ci [rq 1 ''RQ-2025-00001'' t_jan, rq 2 ''RQ-2025-00002'' t_jan] 3)
        \<and> delete (db_of ci [rq 1 ''RQ-2025-00001'' t_jan, rq 2 ''RQ-2025-00002'' t_jan] 3)
              (rq 1 ''RQ-2025-00001'' t_jan) =
            (None, (rq 1 ''RQ-2025-00001'' t_jan)\<lparr>pk := None\<rparr>,
             db_of ci [rq 2 ''RQ-2025-00002'' t_jan] 3)
        \<and> generated_id t_jul (db_of ci [rq 2 ''RQ-2025-00002'' t_jan] 3) = ''RQ-2025-00002''
        \<and> create_with (db_of ci [rq 2 ''RQ-2025-00002'' t_jan] 3) (alice_args t_jul) =
            (Inl (IntegrityError UNIQUE), db_of ci [rq 2 ''RQ-2025-00002'' t_jan] 3))
     [False, True]"
  by (simp only: list.pred_inject create_first create_second delete_first_of_two
        generated_after_delete create_after_delete simp_thms)

text \<open>
  C10. In a store that satisfies its constraints, the copy that \<open>duplicate\<close> returns has both
  counters at 0 and a primary key to which no view, shortlist, match, message, claim or dispute
  refers, whatever the counters and the related rows of \<open>r\<close> are; and the tables of the related
  rows are exactly as before, so none of the rows of \<open>r\<close> has been copied or moved.
\<close>

theorem duplicate_starts_clean:
  assumes "wf_db db" and "duplicate now db r d = (Inr c, db')"
  shows "views c = 0 \<and> shortlists c = 0 \<and> pk c = Some (next_request_pk db) \<and>
         view_logs db' (next_request_pk db) = [] \<and>
         shortlist_logs db' (next_request_pk db) = [] \<and>
         match_of db' (next_request_pk db) = [] \<and>
         messages_of db' (next_request_pk db) = [] \<and>
         claims db' (next_request_pk db) = [] \<and>
         disputes_of db' (next_request_pk db) = [] \<and>
         request_views db' = request_views db \<and> shortlist_rows db' = shortlist_rows db \<and>
         matches db' = matches db \<and> messages db' = messages db \<and>
         financial_claims db' = financial_claims db \<and> claim_items db' = claim_items db \<and>
         receipts db' = receipts db \<and> disputes db' = disputes db"
proof -
  from assms(1) have s: "sequence_ok db" and f: "foreign_keys_ok db"
    by (simp_all add: wf_db_def)
  note n = no_rows_for_next_pk [OF s]
  from f have
    "view_logs db (next_request_pk db) = []" "shortlist_logs db (next_request_pk db) = []"
    "match_of db (next_request_pk db) = []" "messages_of db (next_request_pk db) = []"
    "claims db (next_request_pk db) = []" "disputes_of db (next_request_pk db) = []"
    by (simp_all add: foreign_keys_ok_def view_logs_def shortlist_logs_def match_of_def
          messages_of_def claims_def disputes_of_def n)
  with assms(2) show ?thesis
    by (auto simp: duplicate_cases view_logs_def shortlist_logs_def match_of_def
          messages_of_def claims_def disputes_of_def split: if_splits)
qed

theorem duplicate_starts_clean_witness:
  "wf_db sample_db
   \<and> duplicate t_jul sample_db sample_request t_2026 =
       (Inr ((rq 3 ''RQ-2025-00003'' t_jul)\<lparr>appointment_date := t_2026\<rparr>),
        sample_db\<lparr>service_requests :=
                    [sample_request, rq 2 ''RQ-2025-00002'' t_jan,
                     (rq 3 ''RQ-2025-00003'' t_jul)\<lparr>appointment_date := t_2026\<rparr>],
                  next_request_pk := 4\<rparr>)
   \<and> views sample_request = 2 \<and> shortlists sample_request = 1
   \<and> length (view_logs sample_db 1) = 2 \<and> length (match_of sample_db 1) = 1
   \<and> views ((rq 3 ''RQ-2025-00003'' t_jul)\<lparr>appointment_date := t_2026\<rparr>) = 0
   \<and> shortlists ((rq 3 ''RQ-2025-00003'' t_jul)\<lparr>appointment_date := t_2026\<rparr>) = 0
   \<and> pk ((rq 3 ''RQ-2025-00003'' t_jul)\<lparr>appointment_date := t_2026\<rparr>) = Some 3
   \<and> view_logs
         (sample_db\<lparr>service_requests :=
                      [sample_request, rq 2 ''RQ-2025-00002'' t_jan,
                       (rq 3 ''RQ-2025-00003'' t_jul)\<lparr>appointment_date := t_2026\<rparr>],
                    next_request_pk := 4\<rparr>) 3 = []
   \<and> match_of
         (sample_db\<lparr>service_requests :=
                      [sample_request, rq 2 ''RQ-2025-00002'' t_jan,
                       (rq 3 ''RQ-2025-00003'' t_jul)\<lparr>appointment_date := t_2026\<rparr>],
                    next_request_pk := 4\<rparr>) 3 = []"
proof -
  note t = duplicate_starts_clean [OF wf_sample_db duplicate_sample,
      unfolded next_request_pk_sample_db]
  have a: "length (view_logs sample_db 1) = 2" "length (match_of sample_db 1) = 1"
    by (simp_all add: view_logs_def match_of_def sample_db_def)
  from wf_sample_db duplicate_sample a t show ?thesis
    by simp
qed

end
